theory Spec2Isabelle
  imports Main
begin

section \<open>Values, exceptions and dates\<close>

text \<open>
  The service (\<^verbatim>\<open>my-app/app/main.py\<close>) keeps one JSON document and answers HTTP
  requests over it. Request payloads are arbitrary JSON; the values the handlers copy
  from a payload into a record stay JSON values here. JSON numbers with a fraction are
  not represented (the handlers only pass them through), and strings are 8-bit
  character lists.
\<close>

datatype json =
    JNull
  | JBool bool
  | JInt int
  | JStr string
  | JList "json list"
  | JDict "(string \<times> json) list"

text \<open>The Python exceptions the handlers can raise; none of them is caught below the
  dispatcher.\<close>

datatype py_error =
    ValueError
  | TypeError
  | AttributeError
  | UnicodeDecodeError

text \<open>Python truth value of a decoded JSON value (\<^verbatim>\<open>not body.get(f)\<close>).\<close>

fun truthy :: "json \<Rightarrow> bool" where
  "truthy JNull = False"
| "truthy (JBool b) = b"
| "truthy (JInt i) = (i \<noteq> 0)"
| "truthy (JStr s) = (s \<noteq> [])"
| "truthy (JList xs) = (xs \<noteq> [])"
| "truthy (JDict kvs) = (kvs \<noteq> [])"

text \<open>\<^verbatim>\<open>d.get(k, default)\<close> on the entries of an object (each key once).\<close>

definition dget :: "(string \<times> json) list \<Rightarrow> string \<Rightarrow> json \<Rightarrow> json" where
  "dget kvs k dflt = (case map_of kvs k of None \<Rightarrow> dflt | Some v \<Rightarrow> v)"

text \<open>\<^verbatim>\<open>x not in {"a", "b"}\<close> hashes \<open>x\<close>: a list or an object is unhashable. The
  result is the string when \<open>x\<close> is one of the allowed strings.\<close>

fun member_of :: "json \<Rightarrow> string list \<Rightarrow> py_error + string option" where
  "member_of (JList xs) allowed = Inl TypeError"
| "member_of (JDict kvs) allowed = Inl TypeError"
| "member_of (JStr s) allowed = Inr (if s \<in> set allowed then Some s else None)"
| "member_of _ allowed = Inr None"

text \<open>\<^verbatim>\<open>for x in v\<close> over a decoded JSON value: a list gives its elements, a string
  its characters, an object its keys; numbers and booleans are not iterable.\<close>

fun py_iter :: "json \<Rightarrow> py_error + json list" where
  "py_iter (JList xs) = Inr xs"
| "py_iter (JStr s) = Inr (map (\<lambda>c. JStr [c]) s)"
| "py_iter (JDict kvs) = Inr (map JStr (remdups (map fst kvs)))"
| "py_iter _ = Inl TypeError"

subsection \<open>Calendar dates\<close>

record pydate =
  year :: int
  month :: int
  day :: int

text \<open>\<^verbatim>\<open>date.__lt__\<close> compares (year, month, day) lexicographically.\<close>

definition date_lt :: "pydate \<Rightarrow> pydate \<Rightarrow> bool" where
  "date_lt a b =
     (year a < year b \<or>
      (year a = year b \<and> (month a < month b \<or> (month a = month b \<and> day a < day b))))"

definition date_gt :: "pydate \<Rightarrow> pydate \<Rightarrow> bool" where
  "date_gt a b = date_lt b a"

definition is_leap :: "int \<Rightarrow> bool" where
  "is_leap y = (y mod 4 = 0 \<and> (y mod 100 \<noteq> 0 \<or> y mod 400 = 0))"

definition days_in_month :: "int \<Rightarrow> int \<Rightarrow> int" where
  "days_in_month y m =
     (if m = 2 then (if is_leap y then 29 else 28)
      else if m = 4 \<or> m = 6 \<or> m = 9 \<or> m = 11 then 30 else 31)"

definition days_before_year :: "int \<Rightarrow> int" where
  "days_before_year y =
     (let p = y - 1 in p * 365 + p div 4 - p div 100 + p div 400)"

definition days_before_month :: "int \<Rightarrow> int \<Rightarrow> int" where
  "days_before_month y m = sum_list (map (days_in_month y) [1 .. m - 1])"

text \<open>\<^verbatim>\<open>date.toordinal()\<close>; \<^verbatim>\<open>(end - start).days\<close> is the difference of the
  ordinals.\<close>

definition toordinal :: "pydate \<Rightarrow> int" where
  "toordinal d = days_before_year (year d) + days_before_month (year d) (month d) + day d"

definition days_between :: "pydate \<Rightarrow> pydate \<Rightarrow> int" where
  "days_between e s = toordinal e - toordinal s"

text \<open>
  \<^verbatim>\<open>datetime.strptime(value, "%Y-%m-%d")\<close> on ASCII text. The format compiles to the
  regular expression \<^verbatim>\<open>(\d\d\d\d)-(1[0-2]|0[1-9]|[1-9])-(3[01]|[12]\d|0[1-9]|[1-9]| [1-9])\<close>,
  matched at the start of the text; text left over after the match and a day the month
  does not have (or year 0) raise \<^verbatim>\<open>ValueError\<close>.
\<close>

definition is_digit :: "char \<Rightarrow> bool" where
  "is_digit c = (c \<in> set ''0123456789'')"

definition is_digit19 :: "char \<Rightarrow> bool" where
  "is_digit19 c = (c \<in> set ''123456789'')"

definition digit_val :: "char \<Rightarrow> int" where
  "digit_val c = int (of_char c) - 48"

fun match_year :: "string \<Rightarrow> (int \<times> string) option" where
  "match_year (a # b # c # d # rest) =
     (if is_digit a \<and> is_digit b \<and> is_digit c \<and> is_digit d
      then Some (1000 * digit_val a + 100 * digit_val b + 10 * digit_val c + digit_val d, rest)
      else None)"
| "match_year _ = None"

fun match_dash :: "string \<Rightarrow> string option" where
  "match_dash (c # rest) = (if c = CHR ''-'' then Some rest else None)"
| "match_dash [] = None"

fun match_month :: "string \<Rightarrow> (int \<times> string) option" where
  "match_month (a # b # rest) =
     (if a = CHR ''1'' \<and> b \<in> set ''012'' then Some (10 + digit_val b, rest)
      else if a = CHR ''0'' \<and> is_digit19 b then Some (digit_val b, rest)
      else if is_digit19 a then Some (digit_val a, b # rest)
      else None)"
| "match_month [a] = (if is_digit19 a then Some (digit_val a, []) else None)"
| "match_month [] = None"

fun match_day :: "string \<Rightarrow> (int \<times> string) option" where
  "match_day (a # b # rest) =
     (if a = CHR ''3'' \<and> b \<in> set ''01'' then Some (30 + digit_val b, rest)
      else if a \<in> set ''12'' \<and> is_digit b then Some (10 * digit_val a + digit_val b, rest)
      else if a = CHR ''0'' \<and> is_digit19 b then Some (digit_val b, rest)
      else if is_digit19 a then Some (digit_val a, b # rest)
      else if a = CHR '' '' \<and> is_digit19 b then Some (digit_val b, rest)
      else None)"
| "match_day [a] = (if is_digit19 a then Some (digit_val a, []) else None)"
| "match_day [] = None"

definition strptime :: "string \<Rightarrow> pydate option" where
  "strptime s =
     (case match_year s of None \<Rightarrow> None
      | Some (y, s1) \<Rightarrow>
     (case match_dash s1 of None \<Rightarrow> None
      | Some s2 \<Rightarrow>
     (case match_month s2 of None \<Rightarrow> None
      | Some (m, s3) \<Rightarrow>
     (case match_dash s3 of None \<Rightarrow> None
      | Some s4 \<Rightarrow>
     (case match_day s4 of None \<Rightarrow> None
      | Some (d, s5) \<Rightarrow>
          if s5 \<noteq> [] then None
          else if y < 1 \<or> d > days_in_month y m then None
          else Some \<lparr>year = y, month = m, day = d\<rparr>)))))"

text \<open>\<^verbatim>\<open>parse_date\<close>: \<^verbatim>\<open>strptime\<close> wants a \<^verbatim>\<open>str\<close>.\<close>

fun parse_date :: "json \<Rightarrow> py_error + pydate" where
  "parse_date (JStr s) = (case strptime s of None \<Rightarrow> Inl ValueError | Some d \<Rightarrow> Inr d)"
| "parse_date _ = Inl TypeError"

section \<open>The dataset\<close>

text \<open>
  The handlers read the document through fixed keys, so its entries are records here:
  a field read as \<^verbatim>\<open>r["k"]\<close> is a field of the record. The model covers documents of
  the shape the service itself writes (the seed, and what creation, approval and the
  settings update add to it). \<^verbatim>\<open>id\<close> and the owner's \<^verbatim>\<open>department\<close> are named
  \<open>uid\<close> and \<open>udepartment\<close> on users and \<open>rid\<close> on requests.
\<close>

record user =
  uid :: string
  name :: string
  role :: string
  udepartment :: string
  manager_id :: "string option"
  annual_leave_allowance :: int

text \<open>The keys leave requests and attendance corrections share.\<close>

record approvable =
  rid :: string
  user_id :: string
  employee_name :: string
  department :: string
  reason :: json
  status :: string
  approver_comment :: json
  approved_by :: string
  created_at :: string

record leave_request = approvable +
  leave_type :: json
  start_date :: json
  end_date :: json
  days :: int

record correction = approvable +
  date :: json
  clock_in :: json
  clock_out :: json
  break_minutes :: json
  overtime_hours :: json

record work_calendar =
  holidays :: "string list"

record dataset =
  users :: "user list"
  leave_types :: "string list"
  work_calendar :: work_calendar
  approval_routes :: json
  leave_requests :: "leave_request list"
  attendance_corrections :: "correction list"

definition alice :: user where
  "alice = \<lparr>uid = ''e001'', name = ''Alice Tanaka'', role = ''employee'', udepartment = ''Sales'',
            manager_id = Some ''m001'', annual_leave_allowance = 20\<rparr>"

definition bob :: user where
  "bob = \<lparr>uid = ''e002'', name = ''Bob Suzuki'', role = ''employee'',
          udepartment = ''Engineering'', manager_id = Some ''m002'',
          annual_leave_allowance = 18\<rparr>"

definition mika :: user where
  "mika = \<lparr>uid = ''m001'', name = ''Mika Yamada'', role = ''manager'', udepartment = ''Sales'',
           manager_id = Some ''a001'', annual_leave_allowance = 22\<rparr>"

definition ryo :: user where
  "ryo = \<lparr>uid = ''m002'', name = ''Ryo Watanabe'', role = ''manager'',
          udepartment = ''Engineering'', manager_id = Some ''a001'',
          annual_leave_allowance = 22\<rparr>"

definition admin_ito :: user where
  "admin_ito = \<lparr>uid = ''a001'', name = ''Admin Ito'', role = ''admin'', udepartment = ''HQ'',
                manager_id = None, annual_leave_allowance = 25\<rparr>"

definition SEED :: dataset where
  "SEED = \<lparr>
     users = [alice, bob, mika, ryo, admin_ito],
     leave_types = [''Paid'', ''Sick'', ''Half-day'', ''Special''],
     work_calendar = \<lparr>holidays = [''2025-01-01'', ''2025-02-11'', ''2025-04-29'', ''2025-05-03'']\<rparr>,
     approval_routes = JList [
       JDict [(''department'', JStr ''Sales''), (''manager_id'', JStr ''m001'')],
       JDict [(''department'', JStr ''Engineering''), (''manager_id'', JStr ''m002'')]],
     leave_requests = [],
     attendance_corrections = []\<rparr>"

subsection \<open>The persisted file\<close>

text \<open>
  \<^verbatim>\<open>data.json\<close> is represented by what reading it gives: a document that
  \<^verbatim>\<open>json.loads\<close> decodes (what \<^verbatim>\<open>json.dumps\<close> wrote), text on which
  \<^verbatim>\<open>json.loads\<close> raises \<^verbatim>\<open>JSONDecodeError\<close>, or bytes that are not UTF-8, on which
  \<^verbatim>\<open>read_text(encoding="utf-8")\<close> raises \<^verbatim>\<open>UnicodeDecodeError\<close>. \<open>None\<close> is the
  missing file.
\<close>

datatype stored = Document dataset | Malformed | Undecodable

type_synonym data_file = "stored option"

text \<open>\<^verbatim>\<open>load_data\<close>: the file is written with the seed when it does not exist, then
  read; only \<^verbatim>\<open>json.JSONDecodeError\<close> is caught.\<close>

definition load_data :: "data_file \<Rightarrow> (py_error + dataset) \<times> data_file" where
  "load_data f =
     (let c = (case f of None \<Rightarrow> Document SEED | Some c \<Rightarrow> c) in
      case c of
        Document d \<Rightarrow> (Inr d, Some c)
      | Malformed \<Rightarrow> (Inr SEED, Some (Document SEED))
      | Undecodable \<Rightarrow> (Inl UnicodeDecodeError, Some c))"

definition save_data :: "dataset \<Rightarrow> data_file \<Rightarrow> data_file" where
  "save_data data f = Some (Document data)"

text \<open>\<^verbatim>\<open>user_lookup\<close>: a dict comprehension, so the last user with an id wins.\<close>

definition user_lookup :: "dataset \<Rightarrow> string \<rightharpoonup> user" where
  "user_lookup data = map_of (rev (map (\<lambda>u. (uid u, u)) (users data)))"

text \<open>The clock: the two renderings of \<^verbatim>\<open>utcnow()\<close> a creation takes.\<close>

record clock =
  stamp :: string
  iso :: string

definition generate_id :: "string \<Rightarrow> clock \<Rightarrow> string" where
  "generate_id prefix clk = prefix @ ''-'' @ stamp clk"

section \<open>Requests and responses\<close>

record headers =
  x_user_id :: "string option"
  x_user_role :: "string option"

type_synonym query = "(string \<times> string) list"

text \<open>\<^verbatim>\<open>query.get(k, [d])[0]\<close>.\<close>

definition qget :: "query \<Rightarrow> string \<Rightarrow> string \<Rightarrow> string" where
  "qget q k d = (case map_of q k of None \<Rightarrow> d | Some v \<Rightarrow> v)"

datatype item = Leave leave_request | Correction correction

record total_row =
  employee_id :: string
  total_name :: string
  total_department :: string
  leave_days_taken :: int
  leave_days_remaining :: int

record report =
  leave_totals :: "total_row list"
  correction_count :: nat
  filter_start :: string
  filter_end :: string
  filter_department :: string
  filter_employee :: string

record export_row =
  col_category :: string
  col_employee_id :: string
  col_employee_name :: string
  col_department :: string
  col_status :: string
  col_start_date :: json
  col_end_date :: json
  col_days :: int
  col_leave_type :: json
  col_reason :: json
  col_approver_comment :: json
  col_approved_by :: string
  col_created_at :: string

text \<open>The JSON bodies the handlers send; \<open>Message\<close> and \<open>MissingFields\<close> carry
  \<^verbatim>\<open>"ok": false\<close>, the others \<^verbatim>\<open>"ok": true\<close>.\<close>

datatype payload =
    Message string
  | MissingFields "string list"
  | Meta "user list" "string list" work_calendar json
  | LoggedIn user
  | Items "item list"
  | OneItem item
  | Report report
  | Settings dataset

text \<open>A response: \<^verbatim>\<open>respond_json(status, payload)\<close>, \<^verbatim>\<open>respond_csv(filename, rows)\<close>
  (the rows before \<^verbatim>\<open>csv.DictWriter\<close> renders them) or \<^verbatim>\<open>respond_html\<close>.\<close>

datatype response =
    RespondJson nat payload
  | RespondCsv string "export_row list"
  | RespondHtml nat string

text \<open>What a handler does: it sends a response, or an exception leaves it.\<close>

datatype outcome = Responded response | Raised py_error

text \<open>The request body and \<^verbatim>\<open>read_json\<close>: no body reads as the empty object, a
  body that is not JSON raises \<^verbatim>\<open>ValueError("Invalid JSON payload.")\<close>.\<close>

datatype raw_body = NoBody | NotJson | Json json

fun read_json :: "raw_body \<Rightarrow> py_error + json" where
  "read_json NoBody = Inr (JDict [])"
| "read_json NotJson = Inl ValueError"
| "read_json (Json j) = Inr j"

subsection \<open>Identity and authorization helpers\<close>

definition require_user :: "headers \<Rightarrow> dataset \<Rightarrow> response + user" where
  "require_user h data =
     (case x_user_id h of
        None \<Rightarrow> Inl (RespondJson 401 (Message ''Missing X-User-Id''))
      | Some user_id' \<Rightarrow>
          if user_id' = [] then Inl (RespondJson 401 (Message ''Missing X-User-Id''))
          else (case user_lookup data user_id' of
                  None \<Rightarrow> Inl (RespondJson 403 (Message ''Unknown user''))
                | Some u \<Rightarrow>
                    (case x_user_role h of
                       None \<Rightarrow> Inr u
                     | Some r \<Rightarrow>
                         if r \<noteq> [] \<and> role u \<noteq> r
                         then Inl (RespondJson 403 (Message ''Role mismatch for this user''))
                         else Inr u)))"

text \<open>The second argument of \<^verbatim>\<open>in_team\<close>: \<^verbatim>\<open>users.get(k)\<close> gives \<^verbatim>\<open>None\<close> for an
  unknown id, \<^verbatim>\<open>users.get(k, {})\<close> the empty dict.\<close>

datatype target_user = PyNone | EmptyDict | UserDict user

fun in_team :: "user \<Rightarrow> target_user \<Rightarrow> py_error + bool" where
  "in_team manager t =
     (if role manager = ''admin'' then Inr True
      else (case t of
              PyNone \<Rightarrow> Inl AttributeError
            | EmptyDict \<Rightarrow> Inr False
            | UserDict target \<Rightarrow> Inr (manager_id target = Some (uid manager))))"

definition guard_role :: "user \<Rightarrow> string list \<Rightarrow> response option" where
  "guard_role u allowed =
     (if role u \<notin> set allowed then Some (RespondJson 403 (Message ''Forbidden for this role''))
      else None)"

definition handle_error :: "py_error \<Rightarrow> response" where
  "handle_error exc = RespondJson 500 (Message ''Internal server error. Please retry.'')"

section \<open>Route handlers\<close>

text \<open>
  A handler takes the request (headers, query or decoded JSON body) and the file, and
  gives what it did and the file afterwards. The body is what \<^verbatim>\<open>read_json\<close> returned.
\<close>

text \<open>A list comprehension whose condition can raise.\<close>

fun filter_raise :: "('a \<Rightarrow> py_error + bool) \<Rightarrow> 'a list \<Rightarrow> py_error + 'a list" where
  "filter_raise p [] = Inr []"
| "filter_raise p (x # xs) =
     (case p x of
        Inl e \<Rightarrow> Inl e
      | Inr b \<Rightarrow>
          (case filter_raise p xs of
             Inl e \<Rightarrow> Inl e
           | Inr ys \<Rightarrow> Inr (if b then x # ys else ys)))"

definition api_meta :: "data_file \<Rightarrow> outcome \<times> data_file" where
  "api_meta f =
     (case load_data f of
        (Inl e, f') \<Rightarrow> (Raised e, f')
      | (Inr data, f') \<Rightarrow>
          (Responded (RespondJson 200
             (Meta (users data) (leave_types data) (work_calendar data) (approval_routes data))),
           f'))"

text \<open>\<^verbatim>\<open>users.get(user_id)\<close> with an unhashable \<^verbatim>\<open>user_id\<close> raises; any other value
  that is not a string names no user.\<close>

definition api_login :: "raw_body \<Rightarrow> data_file \<Rightarrow> outcome \<times> data_file" where
  "api_login raw f =
     (case read_json raw of
        Inl e \<Rightarrow> (Raised e, f)
      | Inr (JDict kvs) \<Rightarrow>
          (case load_data f of
             (Inl e, f') \<Rightarrow> (Raised e, f')
           | (Inr data, f') \<Rightarrow>
               (case dget kvs ''user_id'' (JStr []) of
                  JList xs \<Rightarrow> (Raised TypeError, f')
                | JDict d \<Rightarrow> (Raised TypeError, f')
                | JStr s \<Rightarrow>
                    (case user_lookup data s of
                       None \<Rightarrow> (Responded (RespondJson 401 (Message ''User not found'')), f')
                     | Some u \<Rightarrow> (Responded (RespondJson 200 (LoggedIn u)), f'))
                | _ \<Rightarrow> (Responded (RespondJson 401 (Message ''User not found'')), f')))
      | Inr _ \<Rightarrow> (Raised AttributeError, f))"

subsection \<open>Listing\<close>

text \<open>The condition of the team comprehension:
  \<^verbatim>\<open>self.in_team(user, users.get(r["user_id"], {})) or r["user_id"] == user["id"]\<close>.\<close>

definition team_or_own ::
  "user \<Rightarrow> (string \<rightharpoonup> user) \<Rightarrow> 'a approvable_scheme \<Rightarrow> py_error + bool" where
  "team_or_own u usrs r =
     (case in_team u (case usrs (user_id r) of None \<Rightarrow> EmptyDict | Some t \<Rightarrow> UserDict t) of
        Inl e \<Rightarrow> Inl e
      | Inr b \<Rightarrow> Inr (b \<or> user_id r = uid u))"

definition filtered ::
  "user \<Rightarrow> (string \<rightharpoonup> user) \<Rightarrow> string \<Rightarrow> 'a approvable_scheme list
     \<Rightarrow> py_error + 'a approvable_scheme list" where
  "filtered u usrs scope items =
     (if role u = ''admin'' then Inr items
      else if role u = ''manager'' then
        (if scope = ''team'' then filter_raise (team_or_own u usrs) items
         else Inr [r \<leftarrow> items. user_id r = uid u])
      else Inr [r \<leftarrow> items. user_id r = uid u])"

definition api_list_requests ::
  "string \<Rightarrow> query \<Rightarrow> headers \<Rightarrow> data_file \<Rightarrow> outcome \<times> data_file" where
  "api_list_requests category q h f =
     (case load_data f of
        (Inl e, f') \<Rightarrow> (Raised e, f')
      | (Inr data, f') \<Rightarrow>
          (case require_user h data of
             Inl resp \<Rightarrow> (Responded resp, f')
           | Inr u \<Rightarrow>
               (let usrs = user_lookup data;
                    scope = qget q ''scope'' ''mine'';
                    selected =
                      (if category = ''leave''
                       then map_sum id (map Leave) (filtered u usrs scope (leave_requests data))
                       else map_sum id (map Correction)
                              (filtered u usrs scope (attendance_corrections data)))
                in case selected of
                     Inl e \<Rightarrow> (Raised e, f')
                   | Inr items \<Rightarrow> (Responded (RespondJson 200 (Items items)), f'))))"

subsection \<open>Creation\<close>

text \<open>The part of \<^verbatim>\<open>api_create_leave\<close> after the identity check: the presence check,
  the two dates, and the record built from the body and the resolved user.\<close>

definition new_leave ::
  "clock \<Rightarrow> user \<Rightarrow> (string \<times> json) list \<Rightarrow> outcome + leave_request" where
  "new_leave clk u kvs =
     (let missing = [fld \<leftarrow> [''start_date'', ''end_date'', ''leave_type'', ''reason''].
                       \<not> truthy (dget kvs fld JNull)]
      in if missing \<noteq> [] then Inl (Responded (RespondJson 400 (MissingFields missing)))
         else
           (case parse_date (dget kvs ''start_date'' JNull) of
              Inl e \<Rightarrow> Inl (Raised e)
            | Inr start \<Rightarrow>
                (case parse_date (dget kvs ''end_date'' JNull) of
                   Inl e \<Rightarrow> Inl (Raised e)
                 | Inr end' \<Rightarrow>
                     if date_lt end' start
                     then Inl (Responded (RespondJson 400
                                 (Message ''End date must be on/after start date'')))
                     else Inr \<lparr>
                       rid = generate_id ''lv'' clk,
                       user_id = uid u,
                       employee_name = name u,
                       department = udepartment u,
                       reason = dget kvs ''reason'' (JStr []),
                       status = ''pending'',
                       approver_comment = JStr [],
                       approved_by = [],
                       created_at = iso clk,
                       leave_type = dget kvs ''leave_type'' JNull,
                       start_date = dget kvs ''start_date'' JNull,
                       end_date = dget kvs ''end_date'' JNull,
                       days = days_between end' start + 1\<rparr>)))"

definition api_create_leave ::
  "clock \<Rightarrow> headers \<Rightarrow> raw_body \<Rightarrow> data_file \<Rightarrow> outcome \<times> data_file" where
  "api_create_leave clk h raw f =
     (case read_json raw of
        Inl e \<Rightarrow> (Raised e, f)
      | Inr body \<Rightarrow>
          (case load_data f of
             (Inl e, f') \<Rightarrow> (Raised e, f')
           | (Inr data, f') \<Rightarrow>
               (case require_user h data of
                  Inl resp \<Rightarrow> (Responded resp, f')
                | Inr u \<Rightarrow>
                    (case body of
                       JDict kvs \<Rightarrow>
                         (case new_leave clk u kvs of
                            Inl out \<Rightarrow> (out, f')
                          | Inr item \<Rightarrow>
                              (Responded (RespondJson 200 (OneItem (Leave item))),
                               save_data (data\<lparr>leave_requests := leave_requests data @ [item]\<rparr>)
                                 f'))
                     | _ \<Rightarrow> (Raised AttributeError, f')))))"

definition new_correction ::
  "clock \<Rightarrow> user \<Rightarrow> (string \<times> json) list \<Rightarrow> outcome + correction" where
  "new_correction clk u kvs =
     (let missing = [fld \<leftarrow> [''date'', ''clock_in'', ''clock_out'', ''reason''].
                       \<not> truthy (dget kvs fld JNull)]
      in if missing \<noteq> [] then Inl (Responded (RespondJson 400 (MissingFields missing)))
         else Inr \<lparr>
           rid = generate_id ''ac'' clk,
           user_id = uid u,
           employee_name = name u,
           department = udepartment u,
           reason = dget kvs ''reason'' (JStr []),
           status = ''pending'',
           approver_comment = JStr [],
           approved_by = [],
           created_at = iso clk,
           date = dget kvs ''date'' JNull,
           clock_in = dget kvs ''clock_in'' JNull,
           clock_out = dget kvs ''clock_out'' JNull,
           break_minutes = dget kvs ''break_minutes'' (JInt 0),
           overtime_hours = dget kvs ''overtime_hours'' (JInt 0)\<rparr>)"

definition api_create_correction ::
  "clock \<Rightarrow> headers \<Rightarrow> raw_body \<Rightarrow> data_file \<Rightarrow> outcome \<times> data_file" where
  "api_create_correction clk h raw f =
     (case read_json raw of
        Inl e \<Rightarrow> (Raised e, f)
      | Inr body \<Rightarrow>
          (case load_data f of
             (Inl e, f') \<Rightarrow> (Raised e, f')
           | (Inr data, f') \<Rightarrow>
               (case require_user h data of
                  Inl resp \<Rightarrow> (Responded resp, f')
                | Inr u \<Rightarrow>
                    (case body of
                       JDict kvs \<Rightarrow>
                         (case new_correction clk u kvs of
                            Inl out \<Rightarrow> (out, f')
                          | Inr item \<Rightarrow>
                              (Responded (RespondJson 200 (OneItem (Correction item))),
                               save_data
                                 (data\<lparr>attendance_corrections :=
                                         attendance_corrections data @ [item]\<rparr>) f'))
                     | _ \<Rightarrow> (Raised AttributeError, f')))))"

subsection \<open>Approval\<close>

text \<open>Assignment through \<^verbatim>\<open>target\<close>, the first record of the bucket with the id,
  changes that record in the bucket.\<close>

fun update_first :: "('a \<Rightarrow> bool) \<Rightarrow> ('a \<Rightarrow> 'a) \<Rightarrow> 'a list \<Rightarrow> 'a list" where
  "update_first p g [] = []"
| "update_first p g (x # xs) = (if p x then g x # xs else x # update_first p g xs)"

text \<open>The part of \<^verbatim>\<open>api_approve\<close> that works on the chosen bucket: find the target,
  test the team, write the decision. It gives the bucket afterwards and the target.\<close>

definition decide ::
  "user \<Rightarrow> (string \<rightharpoonup> user) \<Rightarrow> json \<Rightarrow> string \<Rightarrow> json \<Rightarrow> 'a approvable_scheme list
     \<Rightarrow> outcome + ('a approvable_scheme list \<times> 'a approvable_scheme)" where
  "decide u usrs target_id action comment items =
     (case find (\<lambda>r. JStr (rid r) = target_id) items of
        None \<Rightarrow> Inl (Responded (RespondJson 404 (Message ''Request not found'')))
      | Some target \<Rightarrow>
          (case in_team u (case usrs (user_id target) of
                             None \<Rightarrow> PyNone | Some owner \<Rightarrow> UserDict owner) of
             Inl e \<Rightarrow> Inl (Raised e)
           | Inr ok \<Rightarrow>
               if \<not> ok
               then Inl (Responded (RespondJson 403
                           (Message ''Cannot approve outside your team'')))
               else
                 (let decided = (\<lambda>r. r\<lparr>status := action, approver_comment := comment,
                                         approved_by := name u\<rparr>)
                  in Inr (update_first (\<lambda>r. JStr (rid r) = target_id) decided items,
                          decided target))))"

definition api_approve :: "headers \<Rightarrow> raw_body \<Rightarrow> data_file \<Rightarrow> outcome \<times> data_file" where
  "api_approve h raw f =
     (case read_json raw of
        Inl e \<Rightarrow> (Raised e, f)
      | Inr (JDict kvs) \<Rightarrow>
          (let category = dget kvs ''category'' JNull;
               target_id = dget kvs ''id'' JNull;
               action = dget kvs ''action'' JNull;
               comment = dget kvs ''comment'' (JStr [])
           in case member_of category [''leave'', ''correction''] of
                Inl e \<Rightarrow> (Raised e, f)
              | Inr None \<Rightarrow> (Responded (RespondJson 400 (Message ''Invalid category'')), f)
              | Inr (Some cat) \<Rightarrow>
           (case member_of action [''approved'', ''rejected''] of
                Inl e \<Rightarrow> (Raised e, f)
              | Inr None \<Rightarrow> (Responded (RespondJson 400 (Message ''Invalid action'')), f)
              | Inr (Some act) \<Rightarrow>
           (case load_data f of
              (Inl e, f') \<Rightarrow> (Raised e, f')
            | (Inr data, f') \<Rightarrow>
           (case require_user h data of
              Inl resp \<Rightarrow> (Responded resp, f')
            | Inr u \<Rightarrow>
           (case guard_role u [''manager'', ''admin''] of
              Some resp \<Rightarrow> (Responded resp, f')
            | None \<Rightarrow>
                if cat = ''leave''
                then (case decide u (user_lookup data) target_id act comment
                             (leave_requests data) of
                        Inl out \<Rightarrow> (out, f')
                      | Inr (items', target) \<Rightarrow>
                          (Responded (RespondJson 200 (OneItem (Leave target))),
                           save_data (data\<lparr>leave_requests := items'\<rparr>) f'))
                else (case decide u (user_lookup data) target_id act comment
                             (attendance_corrections data) of
                        Inl out \<Rightarrow> (out, f')
                      | Inr (items', target) \<Rightarrow>
                          (Responded (RespondJson 200 (OneItem (Correction target))),
                           save_data (data\<lparr>attendance_corrections := items'\<rparr>) f')))))))
      | Inr _ \<Rightarrow> (Raised AttributeError, f))"

subsection \<open>Reports\<close>

text \<open>What the two filters read from a record of either bucket:
  \<^verbatim>\<open>item["user_id"]\<close>, \<^verbatim>\<open>item.get("start_date", item.get("date"))\<close> and
  \<^verbatim>\<open>item.get("end_date", item.get("date"))\<close>.\<close>

fun item_user_id :: "item \<Rightarrow> string" where
  "item_user_id (Leave r) = user_id r"
| "item_user_id (Correction c) = user_id c"

fun item_start :: "item \<Rightarrow> json" where
  "item_start (Leave r) = start_date r"
| "item_start (Correction c) = date c"

fun item_end :: "item \<Rightarrow> json" where
  "item_end (Leave r) = end_date r"
| "item_end (Correction c) = date c"

text \<open>\<^verbatim>\<open>parse_date(start) if start else None\<close>.\<close>

definition parse_filter :: "string \<Rightarrow> py_error + pydate option" where
  "parse_filter s =
     (if s = [] then Inr None
      else (case parse_date (JStr s) of Inl e \<Rightarrow> Inl e | Inr d \<Rightarrow> Inr (Some d)))"

text \<open>The department and employee tests the two filters share.\<close>

definition owner_excluded :: "(string \<rightharpoonup> user) \<Rightarrow> string \<Rightarrow> string \<Rightarrow> item \<Rightarrow> bool" where
  "owner_excluded usrs dept_filter emp_filter it =
     ((dept_filter \<noteq> [] \<and>
         (case usrs (item_user_id it) of None \<Rightarrow> False | Some owner \<Rightarrow> udepartment owner \<noteq> dept_filter))
      \<or> (emp_filter \<noteq> [] \<and> item_user_id it \<noteq> emp_filter))"

text \<open>\<^verbatim>\<open>match_filters\<close> of \<^verbatim>\<open>api_reports\<close>: a date of the record is parsed only when
  the corresponding bound is given, the end only when the start test passed.\<close>

definition match_filters ::
  "(string \<rightharpoonup> user) \<Rightarrow> string \<Rightarrow> string \<Rightarrow> pydate option \<Rightarrow> pydate option \<Rightarrow> item
     \<Rightarrow> py_error + bool" where
  "match_filters usrs dept_filter emp_filter start_date' end_date' it =
     (if owner_excluded usrs dept_filter emp_filter it then Inr False
      else
        (let end_test =
               (case end_date' of
                  None \<Rightarrow> Inr True
                | Some e \<Rightarrow>
                    (case parse_date (item_end it) of
                       Inl x \<Rightarrow> Inl x
                     | Inr d \<Rightarrow> Inr (\<not> date_gt d e)))
         in case start_date' of
              None \<Rightarrow> end_test
            | Some s \<Rightarrow>
                (case parse_date (item_start it) of
                   Inl x \<Rightarrow> Inl x
                 | Inr d \<Rightarrow> if date_lt d s then Inr False else end_test)))"

text \<open>\<^verbatim>\<open>r["status"] == "approved" and match_filters(r)\<close>.\<close>

definition approved_and_match ::
  "(string \<rightharpoonup> user) \<Rightarrow> string \<Rightarrow> string \<Rightarrow> pydate option \<Rightarrow> pydate option
     \<Rightarrow> ('a approvable_scheme \<Rightarrow> item) \<Rightarrow> 'a approvable_scheme \<Rightarrow> py_error + bool" where
  "approved_and_match usrs dept_filter emp_filter sd ed wrap r =
     (if status r = ''approved'' then match_filters usrs dept_filter emp_filter sd ed (wrap r)
      else Inr False)"

text \<open>\<^verbatim>\<open>leave_summary\<close>, a dict in insertion order:
  \<^verbatim>\<open>setdefault(uid, 0)\<close>, then \<^verbatim>\<open>+= days\<close>.\<close>

definition add_days :: "(string \<times> int) list \<Rightarrow> string \<Rightarrow> int \<Rightarrow> (string \<times> int) list" where
  "add_days summary k n =
     (if k \<in> fst ` set summary
      then map (\<lambda>(k', v). if k' = k then (k', v + n) else (k', v)) summary
      else summary @ [(k, 0 + n)])"

definition leave_summary :: "leave_request list \<Rightarrow> (string \<times> int) list" where
  "leave_summary leave_items = foldl (\<lambda>acc r. add_days acc (user_id r) (days r)) [] leave_items"

definition report_row :: "(string \<rightharpoonup> user) \<Rightarrow> string \<times> int \<Rightarrow> total_row" where
  "report_row usrs entry =
     (case entry of (k, days_taken) \<Rightarrow>
        (let u = usrs k;
             allowance = (case u of None \<Rightarrow> 0 | Some x \<Rightarrow> annual_leave_allowance x)
         in \<lparr>employee_id = k,
             total_name = (case u of None \<Rightarrow> [] | Some x \<Rightarrow> name x),
             total_department = (case u of None \<Rightarrow> [] | Some x \<Rightarrow> udepartment x),
             leave_days_taken = days_taken,
             leave_days_remaining = max (allowance - days_taken) 0\<rparr>))"

text \<open>The records the summary counts: \<^verbatim>\<open>leave_items\<close> and \<^verbatim>\<open>corr_items\<close>.\<close>

definition report_leave_items ::
  "dataset \<Rightarrow> string \<Rightarrow> string \<Rightarrow> pydate option \<Rightarrow> pydate option
     \<Rightarrow> py_error + leave_request list" where
  "report_leave_items data dept_filter emp_filter sd ed =
     filter_raise (approved_and_match (user_lookup data) dept_filter emp_filter sd ed Leave)
       (leave_requests data)"

definition report_corr_items ::
  "dataset \<Rightarrow> string \<Rightarrow> string \<Rightarrow> pydate option \<Rightarrow> pydate option
     \<Rightarrow> py_error + correction list" where
  "report_corr_items data dept_filter emp_filter sd ed =
     filter_raise (approved_and_match (user_lookup data) dept_filter emp_filter sd ed Correction)
       (attendance_corrections data)"

definition api_reports :: "query \<Rightarrow> headers \<Rightarrow> data_file \<Rightarrow> outcome \<times> data_file" where
  "api_reports q h f =
     (case load_data f of
        (Inl e, f') \<Rightarrow> (Raised e, f')
      | (Inr data, f') \<Rightarrow>
     (case require_user h data of
        Inl resp \<Rightarrow> (Responded resp, f')
      | Inr u \<Rightarrow>
     (case guard_role u [''manager'', ''admin''] of
        Some resp \<Rightarrow> (Responded resp, f')
      | None \<Rightarrow>
          (let start = qget q ''start'' [];
               end' = qget q ''end'' [];
               dept_filter = qget q ''department'' [];
               emp_filter = qget q ''employee'' []
           in case parse_filter start of
                Inl e \<Rightarrow> (Raised e, f')
              | Inr sd \<Rightarrow>
           (case parse_filter end' of
                Inl e \<Rightarrow> (Raised e, f')
              | Inr ed \<Rightarrow>
           (case report_leave_items data dept_filter emp_filter sd ed of
                Inl e \<Rightarrow> (Raised e, f')
              | Inr leave_items \<Rightarrow>
           (case report_corr_items data dept_filter emp_filter sd ed of
                Inl e \<Rightarrow> (Raised e, f')
              | Inr corr_items \<Rightarrow>
                  (Responded (RespondJson 200 (Report \<lparr>
                     leave_totals = map (report_row (user_lookup data)) (leave_summary leave_items),
                     correction_count = length corr_items,
                     filter_start = start,
                     filter_end = end',
                     filter_department = dept_filter,
                     filter_employee = emp_filter\<rparr>)), f'))))))))"

text \<open>\<^verbatim>\<open>match\<close> of \<^verbatim>\<open>api_reports_export\<close>: both dates of the record are parsed before
  they are compared.\<close>

definition match ::
  "(string \<rightharpoonup> user) \<Rightarrow> string \<Rightarrow> string \<Rightarrow> pydate option \<Rightarrow> pydate option \<Rightarrow> item
     \<Rightarrow> py_error + bool" where
  "match usrs dept_filter emp_filter start_date' end_date' it =
     (if owner_excluded usrs dept_filter emp_filter it then Inr False
      else
        (case parse_date (item_start it) of
           Inl x \<Rightarrow> Inl x
         | Inr i_start \<Rightarrow>
             (case parse_date (item_end it) of
                Inl x \<Rightarrow> Inl x
              | Inr i_end \<Rightarrow>
                  Inr (\<not> (case start_date' of None \<Rightarrow> False | Some s \<Rightarrow> date_lt i_end s)
                       \<and> \<not> (case end_date' of None \<Rightarrow> False | Some e \<Rightarrow> date_gt i_start e)))))"

definition leave_row :: "leave_request \<Rightarrow> export_row" where
  "leave_row r = \<lparr>
     col_category = ''leave'',
     col_employee_id = user_id r,
     col_employee_name = employee_name r,
     col_department = department r,
     col_status = status r,
     col_start_date = start_date r,
     col_end_date = end_date r,
     col_days = days r,
     col_leave_type = leave_type r,
     col_reason = reason r,
     col_approver_comment = approver_comment r,
     col_approved_by = approved_by r,
     col_created_at = created_at r\<rparr>"

definition correction_row :: "correction \<Rightarrow> export_row" where
  "correction_row r = \<lparr>
     col_category = ''attendance_correction'',
     col_employee_id = user_id r,
     col_employee_name = employee_name r,
     col_department = department r,
     col_status = status r,
     col_start_date = date r,
     col_end_date = date r,
     col_days = 0,
     col_leave_type = JStr [],
     col_reason = reason r,
     col_approver_comment = approver_comment r,
     col_approved_by = approved_by r,
     col_created_at = created_at r\<rparr>"

text \<open>The records the export writes, per bucket, before they become rows.\<close>

definition export_leave_items ::
  "dataset \<Rightarrow> string \<Rightarrow> string \<Rightarrow> pydate option \<Rightarrow> pydate option
     \<Rightarrow> py_error + leave_request list" where
  "export_leave_items data dept_filter emp_filter sd ed =
     filter_raise (\<lambda>r. match (user_lookup data) dept_filter emp_filter sd ed (Leave r))
       (leave_requests data)"

definition export_corr_items ::
  "dataset \<Rightarrow> string \<Rightarrow> string \<Rightarrow> pydate option \<Rightarrow> pydate option
     \<Rightarrow> py_error + correction list" where
  "export_corr_items data dept_filter emp_filter sd ed =
     filter_raise (\<lambda>r. match (user_lookup data) dept_filter emp_filter sd ed (Correction r))
       (attendance_corrections data)"

definition api_reports_export :: "query \<Rightarrow> headers \<Rightarrow> data_file \<Rightarrow> outcome \<times> data_file" where
  "api_reports_export q h f =
     (case load_data f of
        (Inl e, f') \<Rightarrow> (Raised e, f')
      | (Inr data, f') \<Rightarrow>
     (case require_user h data of
        Inl resp \<Rightarrow> (Responded resp, f')
      | Inr u \<Rightarrow>
     (case guard_role u [''manager'', ''admin''] of
        Some resp \<Rightarrow> (Responded resp, f')
      | None \<Rightarrow>
          (let start = qget q ''start'' [];
               end' = qget q ''end'' [];
               dept_filter = qget q ''department'' [];
               emp_filter = qget q ''employee'' []
           in case parse_filter start of
                Inl e \<Rightarrow> (Raised e, f')
              | Inr sd \<Rightarrow>
           (case parse_filter end' of
                Inl e \<Rightarrow> (Raised e, f')
              | Inr ed \<Rightarrow>
           (case export_leave_items data dept_filter emp_filter sd ed of
                Inl e \<Rightarrow> (Raised e, f')
              | Inr ls \<Rightarrow>
           (case export_corr_items data dept_filter emp_filter sd ed of
                Inl e \<Rightarrow> (Raised e, f')
              | Inr cs \<Rightarrow>
                  (Responded (RespondCsv ''reports.csv''
                     (map leave_row ls @ map correction_row cs)), f'))))))))"

subsection \<open>Settings\<close>

text \<open>\<^verbatim>\<open>[str(x) for x in v if x]\<close>; \<open>py_str\<close> is Python's \<^verbatim>\<open>str\<close> on decoded JSON
  values (the identity on strings).\<close>

definition str_list :: "(json \<Rightarrow> string) \<Rightarrow> json \<Rightarrow> py_error + string list" where
  "str_list py_str v =
     (case py_iter v of Inl e \<Rightarrow> Inl e | Inr xs \<Rightarrow> Inr (map py_str (filter truthy xs)))"

definition api_settings_update ::
  "(json \<Rightarrow> string) \<Rightarrow> headers \<Rightarrow> raw_body \<Rightarrow> data_file \<Rightarrow> outcome \<times> data_file" where
  "api_settings_update py_str h raw f =
     (case read_json raw of
        Inl e \<Rightarrow> (Raised e, f)
      | Inr body \<Rightarrow>
     (case load_data f of
        (Inl e, f') \<Rightarrow> (Raised e, f')
      | (Inr data, f') \<Rightarrow>
     (case require_user h data of
        Inl resp \<Rightarrow> (Responded resp, f')
      | Inr u \<Rightarrow>
     (case guard_role u [''admin''] of
        Some resp \<Rightarrow> (Responded resp, f')
      | None \<Rightarrow>
     (case body of
        JDict kvs \<Rightarrow>
          (let leave_types' = dget kvs ''leave_types'' JNull;
               holidays' = dget kvs ''holidays'' JNull;
               approval_routes' = dget kvs ''approval_routes'' JNull
           in case (if leave_types' \<noteq> JNull
                    then map_sum id (\<lambda>xs. data\<lparr>leave_types := xs\<rparr>) (str_list py_str leave_types')
                    else Inr data) of
                Inl e \<Rightarrow> (Raised e, f')
              | Inr data1 \<Rightarrow>
           (case (if holidays' \<noteq> JNull
                  then map_sum id
                         (\<lambda>xs. data1\<lparr>work_calendar := (work_calendar data1)\<lparr>holidays := xs\<rparr>\<rparr>)
                         (str_list py_str holidays')
                  else Inr data1) of
                Inl e \<Rightarrow> (Raised e, f')
              | Inr data2 \<Rightarrow>
                  (let data3 = (if approval_routes' \<noteq> JNull
                                then data2\<lparr>approval_routes := approval_routes'\<rparr> else data2)
                   in (Responded (RespondJson 200 (Settings data3)), save_data data3 f'))))
      | _ \<Rightarrow> (Raised AttributeError, f'))))))"

subsection \<open>Dispatch\<close>

text \<open>\<^verbatim>\<open>serve_ui\<close>: \<open>ui\<close> is the content of \<^verbatim>\<open>ui.html\<close>, when the file exists.\<close>

definition serve_ui :: "string option \<Rightarrow> response" where
  "serve_ui ui =
     (case ui of None \<Rightarrow> RespondHtml 500 ''<h1>ui.html missing</h1>''
      | Some body \<Rightarrow> RespondHtml 200 body)"

text \<open>The verbs catch every exception of a handler and answer with \<^verbatim>\<open>handle_error\<close>.\<close>

definition answer :: "outcome \<times> data_file \<Rightarrow> response \<times> data_file" where
  "answer r = (case r of (Responded resp, f) \<Rightarrow> (resp, f) | (Raised e, f) \<Rightarrow> (handle_error e, f))"

definition do_GET ::
  "string option \<Rightarrow> string \<Rightarrow> query \<Rightarrow> headers \<Rightarrow> data_file \<Rightarrow> response \<times> data_file" where
  "do_GET ui path q h f =
     (if path = ''/'' \<or> path = ''/ui.html'' then (serve_ui ui, f)
      else if path = ''/api/meta'' then answer (api_meta f)
      else if path = ''/api/leave_requests'' then answer (api_list_requests ''leave'' q h f)
      else if path = ''/api/attendance_corrections''
        then answer (api_list_requests ''correction'' q h f)
      else if path = ''/api/reports'' then answer (api_reports q h f)
      else if path = ''/api/reports/export'' then answer (api_reports_export q h f)
      else (RespondJson 404 (Message ''Not found''), f))"

definition do_POST ::
  "clock \<Rightarrow> (json \<Rightarrow> string) \<Rightarrow> string \<Rightarrow> headers \<Rightarrow> raw_body \<Rightarrow> data_file
     \<Rightarrow> response \<times> data_file" where
  "do_POST clk py_str path h raw f =
     (if path = ''/api/login'' then answer (api_login raw f)
      else if path = ''/api/leave_requests'' then answer (api_create_leave clk h raw f)
      else if path = ''/api/attendance_corrections''
        then answer (api_create_correction clk h raw f)
      else if path = ''/api/approvals'' then answer (api_approve h raw f)
      else if path = ''/api/settings'' then answer (api_settings_update py_str h raw f)
      else (RespondJson 404 (Message ''Not found''), f))"

section \<open>A sample dataset\<close>

text \<open>The seed's users with a second level of management (\<open>m003\<close> reports to
  \<open>m001\<close>, \<open>e003\<close> to \<open>m003\<close>), three leave requests and two corrections.\<close>

definition ken :: user where
  "ken = \<lparr>uid = ''m003'', name = ''Ken Mori'', role = ''manager'', udepartment = ''Sales'',
          manager_id = Some ''m001'', annual_leave_allowance = 20\<rparr>"

definition yui :: user where
  "yui = \<lparr>uid = ''e003'', name = ''Yui Abe'', role = ''employee'', udepartment = ''Sales'',
          manager_id = Some ''m003'', annual_leave_allowance = 5\<rparr>"

definition sample_users :: "user list" where
  "sample_users = users SEED @ [ken, yui]"

definition sample_leave :: "string \<Rightarrow> string \<Rightarrow> string \<Rightarrow> string \<Rightarrow> int \<Rightarrow> string
    \<Rightarrow> leave_request" where
  "sample_leave k owner s e n st = \<lparr>
     rid = k, user_id = owner, employee_name = owner, department = ''Sales'',
     reason = JStr ''trip'', status = st, approver_comment = JStr [], approved_by = [],
     created_at = ''2025-02-01T09:00:00'',
     leave_type = JStr ''Paid'', start_date = JStr s, end_date = JStr e, days = n\<rparr>"

definition sample_correction :: "string \<Rightarrow> string \<Rightarrow> string \<Rightarrow> string \<Rightarrow> correction" where
  "sample_correction k owner d st = \<lparr>
     rid = k, user_id = owner, employee_name = owner, department = ''Sales'',
     reason = JStr ''forgot'', status = st, approver_comment = JStr [], approved_by = [],
     created_at = ''2025-02-01T09:00:00'',
     date = JStr d, clock_in = JStr ''09:00'', clock_out = JStr ''18:00'',
     break_minutes = JInt 60, overtime_hours = JInt 0\<rparr>"

definition sample :: dataset where
  "sample = SEED\<lparr>
     users := sample_users,
     leave_requests := [
       sample_leave ''lv-1'' ''e001'' ''2025-03-01'' ''2025-03-10'' 10 ''approved'',
       sample_leave ''lv-2'' ''e003'' ''2025-03-06'' ''2025-03-07'' 2 ''approved'',
       sample_leave ''lv-3'' ''e003'' ''2025-03-05'' ''2025-03-08'' 4 ''approved'',
       sample_leave ''lv-4'' ''m001'' ''2025-03-06'' ''2025-03-06'' 1 ''pending''],
     attendance_corrections := [
       sample_correction ''ac-1'' ''e002'' ''2025-03-06'' ''approved'',
       sample_correction ''ac-2'' ''e001'' ''2025-03-07'' ''pending'']\<rparr>"

definition as_user :: "string \<Rightarrow> headers" where
  "as_user k = \<lparr>x_user_id = Some k, x_user_role = None\<rparr>"

text \<open>Requests against the sample: an approval of \<open>lv-1\<close>.\<close>

definition approve_lv1_fields :: "(string \<times> json) list" where
  "approve_lv1_fields = [(''category'', JStr ''leave''), (''id'', JStr ''lv-1''),
                         (''action'', JStr ''approved''), (''comment'', JStr ''ok'')]"

definition approve_lv1 :: raw_body where
  "approve_lv1 = Json (JDict approve_lv1_fields)"

text \<open>A clock reading, \<^verbatim>\<open>str\<close> on the strings of the sample requests, and bodies of
  leave and correction creations: a leave over three days, the same with owner fields
  of its own and with a day count of its own, the records they create, one whose start is not a
  date, one that ends before it starts.\<close>

definition sample_clock :: clock where
  "sample_clock = \<lparr>stamp = ''20250301093000000000'', iso = ''2025-03-01T09:30:00''\<rparr>"

definition str_of_text :: "json \<Rightarrow> string" where
  "str_of_text v = (case v of JStr s \<Rightarrow> s | _ \<Rightarrow> [])"

definition leave_fields :: "(string \<times> json) list" where
  "leave_fields = [(''start_date'', JStr ''2025-04-01''), (''end_date'', JStr ''2025-04-03''),
                   (''leave_type'', JStr ''Paid''), (''reason'', JStr ''family'')]"

definition spoofed_leave_fields :: "(string \<times> json) list" where
  "spoofed_leave_fields =
     [(''user_id'', JStr ''a001''), (''employee_name'', JStr ''Admin Ito''),
      (''department'', JStr ''HQ'')] @ leave_fields"

definition leave_fields_with_days :: "(string \<times> json) list" where
  "leave_fields_with_days = (''days'', JInt 1) # leave_fields"

definition created_leave :: leave_request where
  "created_leave = \<lparr>
     rid = ''lv-20250301093000000000'', user_id = ''e001'', employee_name = ''Alice Tanaka'',
     department = ''Sales'', reason = JStr ''family'', status = ''pending'',
     approver_comment = JStr [], approved_by = [], created_at = ''2025-03-01T09:30:00'',
     leave_type = JStr ''Paid'', start_date = JStr ''2025-04-01'',
     end_date = JStr ''2025-04-03'', days = 3\<rparr>"

definition created_correction :: correction where
  "created_correction = \<lparr>
     rid = ''ac-20250301093000000000'', user_id = ''e001'', employee_name = ''Alice Tanaka'',
     department = ''Sales'', reason = JStr ''badge'', status = ''pending'',
     approver_comment = JStr [], approved_by = [], created_at = ''2025-03-01T09:30:00'',
     date = JStr ''2025-04-01'', clock_in = JStr ''09:00'', clock_out = JStr ''18:30'',
     break_minutes = JInt 0, overtime_hours = JInt 0\<rparr>"

definition bad_start_fields :: "(string \<times> json) list" where
  "bad_start_fields = [(''start_date'', JStr ''2025-02-30''), (''end_date'', JStr ''2025-03-02''),
                       (''leave_type'', JStr ''Paid''), (''reason'', JStr ''family'')]"

definition backwards_fields :: "(string \<times> json) list" where
  "backwards_fields = [(''start_date'', JStr ''2025-04-03''), (''end_date'', JStr ''2025-04-01''),
                       (''leave_type'', JStr ''Paid''), (''reason'', JStr ''family'')]"

definition correction_fields :: "(string \<times> json) list" where
  "correction_fields = [(''date'', JStr ''2025-04-01''), (''clock_in'', JStr ''09:00''),
                        (''clock_out'', JStr ''18:30''), (''reason'', JStr ''badge'')]"

definition spoofed_correction_fields :: "(string \<times> json) list" where
  "spoofed_correction_fields =
     [(''user_id'', JStr ''a001''), (''employee_name'', JStr ''Admin Ito''),
      (''department'', JStr ''HQ'')] @ correction_fields"

text \<open>The summary of the sample with no filter: \<open>e003\<close> took 6 days of an allowance
  of 5.\<close>

definition over_allowance_row :: total_row where
  "over_allowance_row = \<lparr>employee_id = ''e003'', total_name = ''Yui Abe'',
     total_department = ''Sales'', leave_days_taken = 6, leave_days_remaining = 0\<rparr>"

definition sample_report :: report where
  "sample_report = \<lparr>
     leave_totals = [
       \<lparr>employee_id = ''e001'', total_name = ''Alice Tanaka'', total_department = ''Sales'',
        leave_days_taken = 10, leave_days_remaining = 10\<rparr>,
       over_allowance_row],
     correction_count = 1,
     filter_start = [], filter_end = [], filter_department = [], filter_employee = []\<rparr>"





text \<open>A settings update: two leave types around an empty one, one holiday, no routes.\<close>

definition settings_fields :: "(string \<times> json) list" where
  "settings_fields = [(''leave_types'', JList [JStr ''Paid'', JStr [], JStr ''Unpaid'']),
                      (''holidays'', JList [JStr ''2025-12-31''])]"

definition updated_sample :: dataset where
  "updated_sample = sample\<lparr>leave_types := [''Paid'', ''Unpaid''],
                            work_calendar := \<lparr>holidays = [''2025-12-31'']\<rparr>\<rparr>"






text \<open>The sample with one more leave request, whose \<open>user_id\<close> names no user, and an
  approval of it.\<close>

definition orphan_leave :: leave_request where
  "orphan_leave = sample_leave ''lv-9'' ''x999'' ''2025-03-06'' ''2025-03-07'' 2 ''pending''"

definition orphan_sample :: dataset where
  "orphan_sample = sample\<lparr>leave_requests := leave_requests sample @ [orphan_leave]\<rparr>"

definition approve_lv9_fields :: "(string \<times> json) list" where
  "approve_lv9_fields = [(''category'', JStr ''leave''), (''id'', JStr ''lv-9''),
                         (''action'', JStr ''approved''), (''comment'', JStr ''ok'')]"

definition approve_lv9 :: raw_body where
  "approve_lv9 = Json (JDict approve_lv9_fields)"

section \<open>Vocabulary of the properties\<close>

text \<open>The HTTP status of a response; 400 is the validation error, 403 the refusal,
  500 the internal error of \<^verbatim>\<open>handle_error\<close>.\<close>

fun status_of :: "response \<Rightarrow> nat" where
  "status_of (RespondJson st p) = st"
| "status_of (RespondCsv filename rows) = 200"
| "status_of (RespondHtml st body) = st"

text \<open>A value is a parseable date.\<close>

definition parses :: "json \<Rightarrow> bool" where
  "parses v = (\<not> isl (parse_date v))"

text \<open>Team scope as the specification words it: the manager's own records and the
  records of the users whose \<open>manager_id\<close> is the manager's id.\<close>

definition own_or_direct_report :: "dataset \<Rightarrow> user \<Rightarrow> string \<Rightarrow> bool" where
  "own_or_direct_report data u k =
     (k = uid u \<or>
      (case user_lookup data k of None \<Rightarrow> False | Some owner \<Rightarrow> manager_id owner = Some (uid u)))"



text \<open>The days a summary holds for an id, 0 for an id it does not hold.\<close>

definition taken :: "(string \<times> int) list \<Rightarrow> string \<Rightarrow> int" where
  "taken summary k = (case map_of summary k of None \<Rightarrow> 0 | Some v \<Rightarrow> v)"

text \<open>The allowance the summary uses for an id: 0 for an id that names no user.\<close>

definition allowance_of :: "dataset \<Rightarrow> string \<Rightarrow> int" where
  "allowance_of data k =
     (case user_lookup data k of None \<Rightarrow> 0 | Some u \<Rightarrow> annual_leave_allowance u)"

text \<open>The owner of the record an approval names, in the bucket of the category.\<close>

definition target_owner_id :: "dataset \<Rightarrow> string \<Rightarrow> json \<Rightarrow> string option" where
  "target_owner_id data cat target_id =
     (if cat = ''leave''
      then map_option user_id (find (\<lambda>r. JStr (rid r) = target_id) (leave_requests data))
      else map_option user_id (find (\<lambda>r. JStr (rid r) = target_id) (attendance_corrections data)))"

section \<open>Basic facts\<close>

lemma load_data_document: "load_data (Some (Document d)) = (Inr d, Some (Document d))"
  by (simp add: load_data_def)

lemma user_lookup_uid: "user_lookup data k = Some u \<Longrightarrow> uid u = k"
  unfolding user_lookup_def by (auto dest!: map_of_SomeD)

lemma require_user_id: "require_user h data = Inr u \<Longrightarrow> x_user_id h = Some (uid u)"
  unfolding require_user_def
  by (auto split: option.splits if_splits dest: user_lookup_uid)

section \<open>Who sees which records\<close>

text \<open>
  C4. An employee's listing holds only the employee's own records, whatever scope the
  query asks for and whichever bucket is listed: when the asserted identity resolves
  to a user of role employee, the call answers 200 with items that all carry the id of
  that user (the id the request asserted), and it leaves the file as loading left it.
\<close>

theorem employee_lists_only_own_records:
  assumes "load_data f = (Inr data, f')"
    and "require_user h data = Inr u"
    and "role u = ''employee''"
  shows "\<exists>items. api_list_requests category q h f = (Responded (RespondJson 200 (Items items)), f')
           \<and> (\<forall>it \<in> set items. item_user_id it = uid u)
           \<and> x_user_id h = Some (uid u)"
  using assms require_user_id[OF assms(2)]
  by (auto simp: api_list_requests_def filtered_def Let_def)

theorem employee_lists_only_own_records_witness:
  "load_data (Some (Document sample)) = (Inr sample, Some (Document sample))
   \<and> require_user (as_user ''e003'') sample = Inr yui
   \<and> role yui = ''employee''
   \<and> (\<exists>items. api_list_requests ''leave'' [(''scope'', ''team'')] (as_user ''e003'')
                 (Some (Document sample))
          = (Responded (RespondJson 200 (Items items)), Some (Document sample))
        \<and> items \<noteq> []
        \<and> (\<forall>it \<in> set items. item_user_id it = ''e003''))"
proof -
  have h1: "load_data (Some (Document sample)) = (Inr sample, Some (Document sample))"
    by (rule load_data_document)
  have h2: "require_user (as_user ''e003'') sample = Inr yui" by code_simp
  have h3: "role yui = ''employee''" by (simp add: yui_def)
  have u: "uid yui = ''e003''" by (simp add: yui_def)
  have v: "fst (api_list_requests ''leave'' [(''scope'', ''team'')] (as_user ''e003'')
                  (Some (Document sample)))
       \<noteq> Responded (RespondJson 200 (Items []))"
    by code_simp
  from employee_lists_only_own_records[OF h1 h2 h3, of "''leave''" "[(''scope'', ''team'')]",
      unfolded u]
  obtain items where
    i: "api_list_requests ''leave'' [(''scope'', ''team'')] (as_user ''e003'')
          (Some (Document sample))
          = (Responded (RespondJson 200 (Items items)), Some (Document sample))"
       "\<forall>it \<in> set items. item_user_id it = ''e003''"
    by blast
  from i(1) v have "items \<noteq> []" by auto
  with i h1 h2 h3 show ?thesis by blast
qed

lemma filter_raise_Inr:
  "(\<And>x. x \<in> set xs \<Longrightarrow> p x = Inr (q x)) \<Longrightarrow> filter_raise p xs = Inr (filter q xs)"
  by (induction xs) auto

lemma team_or_own_not_admin:
  "role u \<noteq> ''admin'' \<Longrightarrow>
   team_or_own u (user_lookup data) r = Inr (own_or_direct_report data u (user_id r))"
  by (auto simp: team_or_own_def own_or_direct_report_def split: option.splits)

lemma filtered_team:
  assumes "role u = ''manager''"
  shows "filtered u (user_lookup data) ''team'' items
           = Inr [r \<leftarrow> items. own_or_direct_report data u (user_id r)]"
proof -
  have "role u \<noteq> ''admin''" using assms by simp
  then have "filter_raise (team_or_own u (user_lookup data)) items
               = Inr [r \<leftarrow> items. own_or_direct_report data u (user_id r)]"
    by (intro filter_raise_Inr) (rule team_or_own_not_admin)
  with assms show ?thesis by (simp add: filtered_def)
qed

text \<open>
  C2. A manager listing with \<open>scope=team\<close> gets exactly the records, in bucket order,
  whose owner is the manager or a user whose \<open>manager_id\<close> is the manager's id. The test
  is one hop: a record of any other known user whose \<open>manager_id\<close> is not the manager's
  id is left out, also when that user's own manager reports to the listing manager.
\<close>

theorem manager_team_scope_is_one_hop:
  assumes "load_data f = (Inr data, f')"
    and "require_user h data = Inr u"
    and "role u = ''manager''"
    and "qget q ''scope'' ''mine'' = ''team''"
  shows "api_list_requests category q h f =
           (Responded (RespondJson 200 (Items
              (if category = ''leave''
               then map Leave [r \<leftarrow> leave_requests data. own_or_direct_report data u (user_id r)]
               else map Correction
                      [r \<leftarrow> attendance_corrections data.
                         own_or_direct_report data u (user_id r)]))), f')
         \<and> (\<forall>k owner. user_lookup data k = Some owner \<and> k \<noteq> uid u
                \<and> manager_id owner \<noteq> Some (uid u)
              \<longrightarrow> \<not> own_or_direct_report data u k)"
proof -
  have "api_list_requests category q h f =
           (Responded (RespondJson 200 (Items
              (if category = ''leave''
               then map Leave [r \<leftarrow> leave_requests data. own_or_direct_report data u (user_id r)]
               else map Correction
                      [r \<leftarrow> attendance_corrections data.
                         own_or_direct_report data u (user_id r)]))), f')"
    using assms by (simp add: api_list_requests_def Let_def filtered_team)
  moreover have "\<forall>k owner. user_lookup data k = Some owner \<and> k \<noteq> uid u
                \<and> manager_id owner \<noteq> Some (uid u)
              \<longrightarrow> \<not> own_or_direct_report data u k"
    by (auto simp: own_or_direct_report_def)
  ultimately show ?thesis by blast
qed

theorem manager_team_scope_is_one_hop_witness:
  "load_data (Some (Document sample)) = (Inr sample, Some (Document sample))
   \<and> require_user (as_user ''m001'') sample = Inr mika
   \<and> role mika = ''manager''
   \<and> qget [(''scope'', ''team'')] ''scope'' ''mine'' = ''team''
   \<and> api_list_requests ''leave'' [(''scope'', ''team'')] (as_user ''m001'') (Some (Document sample))
       = (Responded (RespondJson 200 (Items [
            Leave (sample_leave ''lv-1'' ''e001'' ''2025-03-01'' ''2025-03-10'' 10 ''approved''),
            Leave (sample_leave ''lv-4'' ''m001'' ''2025-03-06'' ''2025-03-06'' 1 ''pending'')])),
          Some (Document sample))
   \<and> user_lookup sample ''e003'' = Some yui
   \<and> manager_id yui = Some (uid ken) \<and> manager_id ken = Some (uid mika)
   \<and> \<not> own_or_direct_report sample mika ''e003''"
proof -
  have h1: "load_data (Some (Document sample)) = (Inr sample, Some (Document sample))"
    by (rule load_data_document)
  have h2: "require_user (as_user ''m001'') sample = Inr mika" by code_simp
  have h3: "role mika = ''manager''" by (simp add: mika_def)
  have h4: "qget [(''scope'', ''team'')] ''scope'' ''mine'' = ''team''" by (simp add: qget_def)
  have l: "[r \<leftarrow> leave_requests sample. own_or_direct_report sample mika (user_id r)]
           = [sample_leave ''lv-1'' ''e001'' ''2025-03-01'' ''2025-03-10'' 10 ''approved'',
              sample_leave ''lv-4'' ''m001'' ''2025-03-06'' ''2025-03-06'' 1 ''pending'']"
    by code_simp
  have y: "user_lookup sample ''e003'' = Some yui" by code_simp
  have c: "manager_id yui = Some (uid ken) \<and> manager_id ken = Some (uid mika)
           \<and> ''e003'' \<noteq> uid mika \<and> manager_id yui \<noteq> Some (uid mika)"
    by (simp add: yui_def ken_def mika_def)
  note t = manager_team_scope_is_one_hop[OF h1 h2 h3 h4, of "''leave''"]
  from t l have r1:
    "api_list_requests ''leave'' [(''scope'', ''team'')] (as_user ''m001'') (Some (Document sample))
       = (Responded (RespondJson 200 (Items [
            Leave (sample_leave ''lv-1'' ''e001'' ''2025-03-01'' ''2025-03-10'' 10 ''approved''),
            Leave (sample_leave ''lv-4'' ''m001'' ''2025-03-06'' ''2025-03-06'' 1 ''pending'')])),
          Some (Document sample))"
    by simp
  from t y c have r2: "\<not> own_or_direct_report sample mika ''e003''" by blast
  from h1 h2 h3 h4 r1 y c r2 show ?thesis by simp
qed

section \<open>Who may decide a request\<close>

lemma load_data_result:
  assumes "load_data f = (Inr data, f')"
  shows "f' = Some (Document data) \<and> (f = f' \<or> data = SEED)"
  using assms by (auto simp: load_data_def Let_def split: option.splits stored.splits)

lemma load_data_with_records:
  assumes "load_data f = (Inr data, f')"
    and "leave_requests data \<noteq> [] \<or> attendance_corrections data \<noteq> []"
  shows "f' = f"
  using load_data_result[OF assms(1)] assms(2) by (auto simp: SEED_def)

lemma find_Some_nonempty: "find p xs = Some x \<Longrightarrow> xs \<noteq> []"
  by (cases xs) auto

lemma decide_outside_team:
  assumes "find (\<lambda>r. JStr (rid r) = target_id) items = Some target"
    and "usrs (user_id target) = Some owner"
    and "role u \<noteq> ''admin''"
    and "manager_id owner \<noteq> Some (uid u)"
  shows "decide u usrs target_id act comment items
           = Inl (Responded (RespondJson 403 (Message ''Cannot approve outside your team'')))"
  using assms by (simp add: decide_def)

text \<open>
  The refusal for a known owner. An approval or rejection (category and action among
  the accepted values) by a resolved manager, naming an existing record whose owner is
  a known user with a \<open>manager_id\<close> other than the manager's id, is answered 403
  "Cannot approve outside your team", and the file stays as it was. An admin passes the
  team test for every owner, known or not.
\<close>

lemma approve_outside_team_known_owner:
  assumes "read_json raw = Inr (JDict kvs)"
    and "dget kvs ''category'' JNull = JStr cat"
    and "cat = ''leave'' \<or> cat = ''correction''"
    and "dget kvs ''action'' JNull = JStr act"
    and "act = ''approved'' \<or> act = ''rejected''"
    and "load_data f = (Inr data, f')"
    and "require_user h data = Inr u"
    and "role u = ''manager''"
    and "target_owner_id data cat (dget kvs ''id'' JNull) = Some k"
    and "user_lookup data k = Some owner"
    and "manager_id owner \<noteq> Some (uid u)"
  shows "api_approve h raw f
           = (Responded (RespondJson 403 (Message ''Cannot approve outside your team'')), f)
         \<and> f' = f
         \<and> (\<forall>adm t. role adm = ''admin'' \<longrightarrow> in_team adm t = Inr True)"
proof -
  have na: "role u \<noteq> ''admin''" using assms(8) by simp
  have g: "guard_role u [''manager'', ''admin''] = None"
    using assms(8) by (simp add: guard_role_def)
  have m1: "member_of (JStr cat) [''leave'', ''correction''] = Inr (Some cat)"
    using assms(3) by auto
  have m2: "member_of (JStr act) [''approved'', ''rejected''] = Inr (Some act)"
    using assms(5) by auto
  show ?thesis
  proof (cases "cat = ''leave''")
    case True
    from assms(9) True obtain target where
      t: "find (\<lambda>r. JStr (rid r) = dget kvs ''id'' JNull) (leave_requests data) = Some target"
         "user_id target = k"
      by (auto simp: target_owner_id_def)
    from t(1) have "leave_requests data \<noteq> []" by (rule find_Some_nonempty)
    with assms(6) have ff: "f' = f" by (auto dest: load_data_with_records)
    from t assms(10) have "user_lookup data (user_id target) = Some owner" by simp
    from decide_outside_team[where usrs = "user_lookup data", OF t(1) this na assms(11)] True assms g m1 m2 ff
    show ?thesis by (simp add: api_approve_def Let_def)
  next
    case False
    from assms(9) False obtain target where
      t: "find (\<lambda>r. JStr (rid r) = dget kvs ''id'' JNull) (attendance_corrections data)
            = Some target"
         "user_id target = k"
      by (auto simp: target_owner_id_def)
    from t(1) have "attendance_corrections data \<noteq> []" by (rule find_Some_nonempty)
    with assms(6) have ff: "f' = f" by (auto dest: load_data_with_records)
    from t assms(10) have "user_lookup data (user_id target) = Some owner" by simp
    from decide_outside_team[where usrs = "user_lookup data", OF t(1) this na assms(11)] False assms g m1 m2 ff
    show ?thesis by (simp add: api_approve_def Let_def)
  qed
qed

lemma approve_outside_team_known_owner_example:
  "read_json approve_lv1 = Inr (JDict approve_lv1_fields)
   \<and> dget approve_lv1_fields ''category'' JNull = JStr ''leave''
   \<and> dget approve_lv1_fields ''action'' JNull = JStr ''approved''
   \<and> load_data (Some (Document sample)) = (Inr sample, Some (Document sample))
   \<and> require_user (as_user ''m002'') sample = Inr ryo
   \<and> role ryo = ''manager''
   \<and> target_owner_id sample ''leave'' (dget approve_lv1_fields ''id'' JNull) = Some ''e001''
   \<and> user_lookup sample ''e001'' = Some alice
   \<and> manager_id alice \<noteq> Some (uid ryo)
   \<and> api_approve (as_user ''m002'') approve_lv1 (Some (Document sample))
       = (Responded (RespondJson 403 (Message ''Cannot approve outside your team'')),
          Some (Document sample))
   \<and> in_team admin_ito PyNone = Inr True"
proof -
  have h1: "read_json approve_lv1 = Inr (JDict approve_lv1_fields)"
    by (simp add: approve_lv1_def)
  have h2: "dget approve_lv1_fields ''category'' JNull = JStr ''leave''"
    by (simp add: dget_def approve_lv1_fields_def)
  have h3: "''leave'' = ''leave'' \<or> ''leave'' = ''correction''" by simp
  have h4: "dget approve_lv1_fields ''action'' JNull = JStr ''approved''"
    by (simp add: dget_def approve_lv1_fields_def)
  have h5: "''approved'' = ''approved'' \<or> ''approved'' = ''rejected''" by simp
  have h6: "load_data (Some (Document sample)) = (Inr sample, Some (Document sample))"
    by (rule load_data_document)
  have h7: "require_user (as_user ''m002'') sample = Inr ryo" by code_simp
  have h8: "role ryo = ''manager''" by (simp add: ryo_def)
  have h9: "target_owner_id sample ''leave'' (dget approve_lv1_fields ''id'' JNull) = Some ''e001''"
    by code_simp
  have h10: "user_lookup sample ''e001'' = Some alice" by code_simp
  have h11: "manager_id alice \<noteq> Some (uid ryo)" by (simp add: alice_def ryo_def)
  have adm: "role admin_ito = ''admin''" by (simp add: admin_ito_def)
  note t = approve_outside_team_known_owner[OF h1 h2 h3 h4 h5 h6 h7 h8 h9 h10 h11]
  from t have r1: "api_approve (as_user ''m002'') approve_lv1 (Some (Document sample))
       = (Responded (RespondJson 403 (Message ''Cannot approve outside your team'')),
          Some (Document sample))" by blast
  from t adm have r2: "in_team admin_ito PyNone = Inr True" by blast
  from h1 h2 h4 h6 h7 h8 h9 h10 h11 r1 r2 show ?thesis by blast
qed

lemma decide_unknown_owner:
  assumes "find (\<lambda>r. JStr (rid r) = target_id) items = Some target"
    and "usrs (user_id target) = None"
    and "role u \<noteq> ''admin''"
  shows "decide u usrs target_id act comment items = Inl (Raised AttributeError)"
  using assms by (simp add: decide_def)

text \<open>
  C3, at a record whose \<open>user_id\<close> names no user. Such a record has no owner whose
  \<open>manager_id\<close> could be the manager's id, so the approval should be refused with 403.
  \<open>api_approve\<close> looks the owner up with \<open>users.get(target["user_id"])\<close>, gets
  \<open>None\<close>, and \<open>in_team\<close> calls \<open>get\<close> on it: for every resolved manager and every
  accepted category and action the handler raises \<open>AttributeError\<close> and the client
  gets the 500 of \<open>handle_error\<close>, not a 403. The file stays as it was. (The listing
  passes \<open>users.get(k, {})\<close> to the same test and the report filters test
  \<open>and owner\<close> first; for a known owner \<open>approve_outside_team_known_owner\<close> shows the
  403.)
\<close>

theorem approve_unknown_owner_is_internal_error:
  assumes "read_json raw = Inr (JDict kvs)"
    and "dget kvs ''category'' JNull = JStr cat"
    and "cat = ''leave'' \<or> cat = ''correction''"
    and "dget kvs ''action'' JNull = JStr act"
    and "act = ''approved'' \<or> act = ''rejected''"
    and "load_data f = (Inr data, f')"
    and "require_user h data = Inr u"
    and "role u = ''manager''"
    and "target_owner_id data cat (dget kvs ''id'' JNull) = Some k"
    and "user_lookup data k = None"
  shows "api_approve h raw f = (Raised AttributeError, f)
         \<and> do_POST clk py_str ''/api/approvals'' h raw f
             = (RespondJson 500 (Message ''Internal server error. Please retry.''), f)
         \<and> status_of (fst (do_POST clk py_str ''/api/approvals'' h raw f)) \<noteq> 403"
proof -
  have na: "role u \<noteq> ''admin''" using assms(8) by simp
  have g: "guard_role u [''manager'', ''admin''] = None"
    using assms(8) by (simp add: guard_role_def)
  have m1: "member_of (JStr cat) [''leave'', ''correction''] = Inr (Some cat)"
    using assms(3) by auto
  have m2: "member_of (JStr act) [''approved'', ''rejected''] = Inr (Some act)"
    using assms(5) by auto
  have run: "api_approve h raw f = (Raised AttributeError, f)"
  proof (cases "cat = ''leave''")
    case True
    from assms(9) True obtain target where
      t: "find (\<lambda>r. JStr (rid r) = dget kvs ''id'' JNull) (leave_requests data) = Some target"
         "user_id target = k"
      by (auto simp: target_owner_id_def)
    from t(1) have "leave_requests data \<noteq> []" by (rule find_Some_nonempty)
    with assms(6) have ff: "f' = f" by (auto dest: load_data_with_records)
    from t assms(10) have "user_lookup data (user_id target) = None" by simp
    from decide_unknown_owner[where usrs = "user_lookup data", OF t(1) this na]
      True assms(1,2,4,6,7) g m1 m2 ff
    show ?thesis by (simp add: api_approve_def Let_def)
  next
    case False
    from assms(9) False obtain target where
      t: "find (\<lambda>r. JStr (rid r) = dget kvs ''id'' JNull) (attendance_corrections data)
            = Some target"
         "user_id target = k"
      by (auto simp: target_owner_id_def)
    from t(1) have "attendance_corrections data \<noteq> []" by (rule find_Some_nonempty)
    with assms(6) have ff: "f' = f" by (auto dest: load_data_with_records)
    from t assms(10) have "user_lookup data (user_id target) = None" by simp
    from decide_unknown_owner[where usrs = "user_lookup data", OF t(1) this na]
      False assms(1,2,4,6,7) g m1 m2 ff
    show ?thesis by (simp add: api_approve_def Let_def)
  qed
  then have post: "do_POST clk py_str ''/api/approvals'' h raw f
             = (RespondJson 500 (Message ''Internal server error. Please retry.''), f)"
    by (simp add: do_POST_def answer_def handle_error_def)
  from run post show ?thesis by simp
qed

theorem approve_unknown_owner_is_internal_error_witness:
  "read_json approve_lv9 = Inr (JDict approve_lv9_fields)
   \<and> dget approve_lv9_fields ''category'' JNull = JStr ''leave''
   \<and> dget approve_lv9_fields ''action'' JNull = JStr ''approved''
   \<and> load_data (Some (Document orphan_sample)) = (Inr orphan_sample, Some (Document orphan_sample))
   \<and> require_user (as_user ''m001'') orphan_sample = Inr mika
   \<and> role mika = ''manager''
   \<and> target_owner_id orphan_sample ''leave'' (dget approve_lv9_fields ''id'' JNull) = Some ''x999''
   \<and> user_lookup orphan_sample ''x999'' = None
   \<and> api_approve (as_user ''m001'') approve_lv9 (Some (Document orphan_sample))
       = (Raised AttributeError, Some (Document orphan_sample))
   \<and> do_POST sample_clock str_of_text ''/api/approvals'' (as_user ''m001'') approve_lv9
        (Some (Document orphan_sample))
       = (RespondJson 500 (Message ''Internal server error. Please retry.''),
          Some (Document orphan_sample))"
proof -
  have h1: "read_json approve_lv9 = Inr (JDict approve_lv9_fields)"
    by (simp add: approve_lv9_def)
  have h2: "dget approve_lv9_fields ''category'' JNull = JStr ''leave''"
    by (simp add: dget_def approve_lv9_fields_def)
  have h3: "''leave'' = ''leave'' \<or> ''leave'' = ''correction''" by simp
  have h4: "dget approve_lv9_fields ''action'' JNull = JStr ''approved''"
    by (simp add: dget_def approve_lv9_fields_def)
  have h5: "''approved'' = ''approved'' \<or> ''approved'' = ''rejected''" by simp
  have h6: "load_data (Some (Document orphan_sample))
              = (Inr orphan_sample, Some (Document orphan_sample))"
    by (rule load_data_document)
  have h7: "require_user (as_user ''m001'') orphan_sample = Inr mika" by code_simp
  have h8: "role mika = ''manager''" by (simp add: mika_def)
  have h9: "target_owner_id orphan_sample ''leave'' (dget approve_lv9_fields ''id'' JNull)
              = Some ''x999''"
    by code_simp
  have h10: "user_lookup orphan_sample ''x999'' = None" by code_simp
  note t = approve_unknown_owner_is_internal_error[OF h1 h2 h3 h4 h5 h6 h7 h8 h9 h10,
      of sample_clock str_of_text]
  from h1 h2 h4 h6 h7 h8 h9 h10 t[THEN conjunct1] t[THEN conjunct2, THEN conjunct1]
  show ?thesis by (intro conjI)
qed

section \<open>What a creation stores\<close>

lemma parse_date_truthy: "parse_date v = Inr d \<Longrightarrow> truthy v"
  by (cases v) (auto simp: strptime_def)


lemma not_parses_iff: "\<not> parses v \<longleftrightarrow> (\<exists>e. parse_date v = Inl e)"
  by (cases "parse_date v") (auto simp: parses_def)

lemma dget_cong: "map_of kvs k = map_of kvs' k \<Longrightarrow> dget kvs k d = dget kvs' k d"
  by (simp add: dget_def)

lemma new_leave_cong:
  assumes "\<forall>k \<in> {''start_date'', ''end_date'', ''leave_type'', ''reason''}.
             map_of kvs k = map_of kvs' k"
  shows "new_leave clk u kvs = new_leave clk u kvs'"
proof -
  have eqs: "dget kvs ''start_date'' = dget kvs' ''start_date''"
       "dget kvs ''end_date'' = dget kvs' ''end_date''"
       "dget kvs ''leave_type'' = dget kvs' ''leave_type''"
       "dget kvs ''reason'' = dget kvs' ''reason''"
    using assms by (auto intro!: ext dget_cong)
  show ?thesis unfolding new_leave_def list.map filter.simps eqs by (rule refl)
qed

lemma new_correction_cong:
  assumes "\<forall>k \<in> {''date'', ''clock_in'', ''clock_out'', ''reason'', ''break_minutes'',
                  ''overtime_hours''}. map_of kvs k = map_of kvs' k"
  shows "new_correction clk u kvs = new_correction clk u kvs'"
proof -
  have eqs: "dget kvs ''date'' = dget kvs' ''date''"
       "dget kvs ''clock_in'' = dget kvs' ''clock_in''"
       "dget kvs ''clock_out'' = dget kvs' ''clock_out''"
       "dget kvs ''reason'' = dget kvs' ''reason''"
       "dget kvs ''break_minutes'' = dget kvs' ''break_minutes''"
       "dget kvs ''overtime_hours'' = dget kvs' ''overtime_hours''"
    using assms by (auto intro!: ext dget_cong)
  show ?thesis unfolding new_correction_def list.map filter.simps eqs by (rule refl)
qed

lemma api_create_leave_cong:
  assumes "\<And>u. new_leave clk u kvs = new_leave clk u kvs'"
  shows "api_create_leave clk h (Json (JDict kvs)) f = api_create_leave clk h (Json (JDict kvs')) f"
  using assms by (simp add: api_create_leave_def split: prod.splits sum.splits)

lemma api_create_correction_cong:
  assumes "\<And>u. new_correction clk u kvs = new_correction clk u kvs'"
  shows "api_create_correction clk h (Json (JDict kvs)) f
           = api_create_correction clk h (Json (JDict kvs')) f"
  using assms by (simp add: api_create_correction_def split: prod.splits sum.splits)

lemma new_leave_owner:
  "new_leave clk u kvs = Inr r \<Longrightarrow>
     user_id r = uid u \<and> employee_name r = name u \<and> department r = udepartment u"
  by (auto simp: new_leave_def Let_def split: if_splits sum.splits)

lemma new_correction_owner:
  "new_correction clk u kvs = Inr r \<Longrightarrow>
     user_id r = uid u \<and> employee_name r = name u \<and> department r = udepartment u"
  by (auto simp: new_correction_def Let_def split: if_splits)

lemma new_leave_not_ok:
  "new_leave clk u kvs = Inl out \<Longrightarrow> out \<noteq> Responded (RespondJson 200 p)"
  by (auto simp: new_leave_def Let_def split: if_splits sum.splits)

lemma new_correction_not_ok:
  "new_correction clk u kvs = Inl out \<Longrightarrow> out \<noteq> Responded (RespondJson 200 p)"
  by (auto simp: new_correction_def Let_def split: if_splits)

lemma api_create_leave_ok:
  assumes "load_data f = (Inr data, f')" and "require_user h data = Inr u"
    and "api_create_leave clk h (Json (JDict kvs)) f = (Responded (RespondJson 200 (OneItem it)), f2)"
  shows "\<exists>r. new_leave clk u kvs = Inr r \<and> it = Leave r
            \<and> f2 = Some (Document (data\<lparr>leave_requests := leave_requests data @ [r]\<rparr>))"
proof (cases "new_leave clk u kvs")
  case (Inl out)
  with assms new_leave_not_ok[OF Inl] show ?thesis
    by (auto simp: api_create_leave_def)
next
  case (Inr r)
  with assms show ?thesis by (auto simp: api_create_leave_def save_data_def)
qed

lemma api_create_correction_ok:
  assumes "load_data f = (Inr data, f')" and "require_user h data = Inr u"
    and "api_create_correction clk h (Json (JDict kvs)) f
           = (Responded (RespondJson 200 (OneItem it)), f2)"
  shows "\<exists>r. new_correction clk u kvs = Inr r \<and> it = Correction r
            \<and> f2 = Some (Document
                      (data\<lparr>attendance_corrections := attendance_corrections data @ [r]\<rparr>))"
proof (cases "new_correction clk u kvs")
  case (Inl out)
  with assms new_correction_not_ok[OF Inl] show ?thesis
    by (auto simp: api_create_correction_def)
next
  case (Inr r)
  with assms show ?thesis by (auto simp: api_create_correction_def save_data_def)
qed


lemma new_leave_missing:
  assumes "\<not> (truthy (dget kvs ''leave_type'' JNull) \<and> truthy (dget kvs ''reason'' JNull))"
  shows "\<exists>missing. new_leave clk u kvs = Inl (Responded (RespondJson 400 (MissingFields missing)))"
  using assms by (auto simp: new_leave_def Let_def)

lemma new_leave_raises:
  assumes "truthy (dget kvs ''start_date'' JNull)" and "truthy (dget kvs ''end_date'' JNull)"
    and "truthy (dget kvs ''leave_type'' JNull)" and "truthy (dget kvs ''reason'' JNull)"
    and "\<not> parses (dget kvs ''start_date'' JNull) \<or> \<not> parses (dget kvs ''end_date'' JNull)"
  shows "\<exists>e. new_leave clk u kvs = Inl (Raised e)"
  using assms by (auto simp: new_leave_def not_parses_iff split: sum.splits)

lemma api_create_leave_early:
  assumes "read_json raw = Inr (JDict kvs)"
    and "load_data f = (Inr data, f')"
    and "require_user h data = Inr u"
    and "new_leave clk u kvs = Inl out"
  shows "api_create_leave clk h raw f = (out, f')"
  using assms by (simp add: api_create_leave_def)

text \<open>
  C5, as the code has it. A leave creation by a resolved user whose \<open>start_date\<close> and
  \<open>end_date\<close> are present (truthy) but not both parseable: when \<open>leave_type\<close> and
  \<open>reason\<close> are present too, \<open>parse_date\<close> raises, nothing catches it below the
  dispatcher, and the client gets the generic 500 of \<open>handle_error\<close>; when one of them
  is missing, the answer is the 400 that lists the missing fields. Either way no
  record is added: the file is as \<open>load_data\<close> left it, which is unchanged when a
  document was persisted.
\<close>

theorem unparseable_leave_date_is_internal_error:
  assumes "read_json raw = Inr (JDict kvs)"
    and "load_data f = (Inr data, f')"
    and "require_user h data = Inr u"
    and "truthy (dget kvs ''start_date'' JNull)"
    and "truthy (dget kvs ''end_date'' JNull)"
    and "\<not> parses (dget kvs ''start_date'' JNull) \<or> \<not> parses (dget kvs ''end_date'' JNull)"
  shows "(if truthy (dget kvs ''leave_type'' JNull) \<and> truthy (dget kvs ''reason'' JNull)
          then (\<exists>e. api_create_leave clk h raw f = (Raised e, f'))
               \<and> do_POST clk py_str ''/api/leave_requests'' h raw f
                   = (RespondJson 500 (Message ''Internal server error. Please retry.''), f')
          else (\<exists>missing. do_POST clk py_str ''/api/leave_requests'' h raw f
                   = (RespondJson 400 (MissingFields missing), f')))
         \<and> (f = Some (Document data) \<longrightarrow> f' = f)"
proof -
  have keep: "f = Some (Document data) \<longrightarrow> f' = f"
    using assms(2) by (auto simp: load_data_def)
  show ?thesis
  proof (cases "truthy (dget kvs ''leave_type'' JNull) \<and> truthy (dget kvs ''reason'' JNull)")
    case True
    with assms obtain e where "new_leave clk u kvs = Inl (Raised e)"
      using new_leave_raises[of kvs clk u] by blast
    from api_create_leave_early[OF assms(1-3) this]
    have "api_create_leave clk h raw f = (Raised e, f')" .
    then show ?thesis using True keep
      by (auto simp: do_POST_def answer_def handle_error_def)
  next
    case False
    then obtain missing where
      "new_leave clk u kvs = Inl (Responded (RespondJson 400 (MissingFields missing)))"
      using new_leave_missing[of kvs clk u] by blast
    from api_create_leave_early[OF assms(1-3) this]
    have "api_create_leave clk h raw f = (Responded (RespondJson 400 (MissingFields missing)), f')" .
    then show ?thesis using False keep
      by (auto simp: do_POST_def answer_def)
  qed
qed

theorem unparseable_leave_date_is_internal_error_witness:
  "read_json (Json (JDict bad_start_fields)) = Inr (JDict bad_start_fields)
   \<and> load_data (Some (Document SEED)) = (Inr SEED, Some (Document SEED))
   \<and> require_user (as_user ''e001'') SEED = Inr alice
   \<and> truthy (dget bad_start_fields ''start_date'' JNull)
   \<and> truthy (dget bad_start_fields ''end_date'' JNull)
   \<and> \<not> parses (dget bad_start_fields ''start_date'' JNull)
   \<and> truthy (dget bad_start_fields ''leave_type'' JNull)
   \<and> truthy (dget bad_start_fields ''reason'' JNull)
   \<and> do_POST sample_clock str_of_text ''/api/leave_requests'' (as_user ''e001'')
        (Json (JDict bad_start_fields)) (Some (Document SEED))
       = (RespondJson 500 (Message ''Internal server error. Please retry.''),
          Some (Document SEED))"
proof -
  have h1: "read_json (Json (JDict bad_start_fields)) = Inr (JDict bad_start_fields)" by simp
  have h2: "load_data (Some (Document SEED)) = (Inr SEED, Some (Document SEED))"
    by (rule load_data_document)
  have h3: "require_user (as_user ''e001'') SEED = Inr alice" by code_simp
  have h4: "truthy (dget bad_start_fields ''start_date'' JNull)" by code_simp
  have h5: "truthy (dget bad_start_fields ''end_date'' JNull)" by code_simp
  have h6: "\<not> parses (dget bad_start_fields ''start_date'' JNull)" by code_simp
  have h7: "truthy (dget bad_start_fields ''leave_type'' JNull)" by code_simp
  have h8: "truthy (dget bad_start_fields ''reason'' JNull)" by code_simp
  from h6 have h6': "\<not> parses (dget bad_start_fields ''start_date'' JNull)
                    \<or> \<not> parses (dget bad_start_fields ''end_date'' JNull)" by simp
  from unparseable_leave_date_is_internal_error[OF h1 h2 h3 h4 h5 h6', of sample_clock str_of_text]
    h7 h8
  have "do_POST sample_clock str_of_text ''/api/leave_requests'' (as_user ''e001'')
        (Json (JDict bad_start_fields)) (Some (Document SEED))
       = (RespondJson 500 (Message ''Internal server error. Please retry.''),
          Some (Document SEED))" by simp
  with h1 h2 h3 h4 h5 h6 h7 h8 show ?thesis by blast
qed

text \<open>The specification promises a validation error (400) here. For the start date
  2025-02-30, sent by the resolved user \<open>e001\<close> with all four fields present, the
  answer is the 500 of \<open>handle_error\<close>.\<close>

theorem unparseable_leave_date_counterexample:
  "require_user (as_user ''e001'') SEED = Inr alice
   \<and> truthy (dget bad_start_fields ''start_date'' JNull)
   \<and> truthy (dget bad_start_fields ''end_date'' JNull)
   \<and> dget bad_start_fields ''start_date'' JNull = JStr ''2025-02-30''
   \<and> \<not> parses (JStr ''2025-02-30'')
   \<and> status_of (fst (do_POST sample_clock str_of_text ''/api/leave_requests'' (as_user ''e001'')
        (Json (JDict bad_start_fields)) (Some (Document SEED)))) = 500
   \<and> status_of (fst (do_POST sample_clock str_of_text ''/api/leave_requests'' (as_user ''e001'')
        (Json (JDict bad_start_fields)) (Some (Document SEED)))) \<noteq> 400"
  by code_simp

lemma new_correction_present:
  assumes "truthy (dget kvs ''date'' JNull)" and "truthy (dget kvs ''clock_in'' JNull)"
    and "truthy (dget kvs ''clock_out'' JNull)" and "truthy (dget kvs ''reason'' JNull)"
  shows "\<exists>r. new_correction clk u kvs = Inr r"
  using assms by (simp add: new_correction_def)

lemma new_leave_present:
  assumes "truthy (dget kvs ''leave_type'' JNull)" and "truthy (dget kvs ''reason'' JNull)"
    and "parse_date (dget kvs ''start_date'' JNull) = Inr s"
    and "parse_date (dget kvs ''end_date'' JNull) = Inr e"
    and "\<not> date_lt e s"
  shows "\<exists>r. new_leave clk u kvs = Inr r"
  using assms parse_date_truthy[OF assms(3)] parse_date_truthy[OF assms(4)]
  by (simp add: new_leave_def)

lemma api_create_correction_saves:
  assumes "load_data f = (Inr data, f')" and "require_user h data = Inr u"
    and "new_correction clk u kvs = Inr r"
  shows "api_create_correction clk h (Json (JDict kvs)) f
           = (Responded (RespondJson 200 (OneItem (Correction r))),
              Some (Document (data\<lparr>attendance_corrections :=
                                      attendance_corrections data @ [r]\<rparr>)))"
  using assms by (simp add: api_create_correction_def save_data_def)

lemma api_create_leave_saves:
  assumes "load_data f = (Inr data, f')" and "require_user h data = Inr u"
    and "new_leave clk u kvs = Inr r"
  shows "api_create_leave clk h (Json (JDict kvs)) f
           = (Responded (RespondJson 200 (OneItem (Leave r))),
              Some (Document (data\<lparr>leave_requests := leave_requests data @ [r]\<rparr>)))"
  using assms by (simp add: api_create_leave_def save_data_def)

text \<open>
  C6. The owner fields of a created record are those of the resolved user, not of the
  payload. Two payloads that agree on every key but \<open>user_id\<close>, \<open>employee_name\<close> and
  \<open>department\<close> get the same answer and leave the same file, for leave requests and
  for corrections. Every record a creation answers with carries the id, name and
  department of the resolved user and is the one appended to its bucket. And the
  creations do succeed: a leave request with type and reason present and dates that
  parse in order, and a correction with its four fields present, are answered 200 with
  such a record, saved at the end of the bucket.
\<close>

theorem owner_fields_come_from_identity:
  assumes "load_data f = (Inr data, f')"
    and "require_user h data = Inr u"
    and "\<forall>k. k \<notin> {''user_id'', ''employee_name'', ''department''}
             \<longrightarrow> map_of kvs k = map_of kvs' k"
  shows "api_create_leave clk h (Json (JDict kvs)) f = api_create_leave clk h (Json (JDict kvs')) f
       \<and> api_create_correction clk h (Json (JDict kvs)) f
           = api_create_correction clk h (Json (JDict kvs')) f
       \<and> (\<forall>it f2. api_create_leave clk h (Json (JDict kvs)) f
                     = (Responded (RespondJson 200 (OneItem it)), f2)
              \<longrightarrow> (\<exists>r. it = Leave r \<and> user_id r = uid u \<and> employee_name r = name u
                       \<and> department r = udepartment u
                       \<and> f2 = Some (Document
                                 (data\<lparr>leave_requests := leave_requests data @ [r]\<rparr>))))
       \<and> (\<forall>it f2. api_create_correction clk h (Json (JDict kvs)) f
                     = (Responded (RespondJson 200 (OneItem it)), f2)
              \<longrightarrow> (\<exists>r. it = Correction r \<and> user_id r = uid u \<and> employee_name r = name u
                       \<and> department r = udepartment u
                       \<and> f2 = Some (Document
                                 (data\<lparr>attendance_corrections :=
                                         attendance_corrections data @ [r]\<rparr>))))
       \<and> (truthy (dget kvs ''leave_type'' JNull) \<and> truthy (dget kvs ''reason'' JNull)
          \<and> (\<exists>s e. parse_date (dget kvs ''start_date'' JNull) = Inr s
                   \<and> parse_date (dget kvs ''end_date'' JNull) = Inr e \<and> \<not> date_lt e s)
          \<longrightarrow> (\<exists>r. api_create_leave clk h (Json (JDict kvs)) f
                       = (Responded (RespondJson 200 (OneItem (Leave r))),
                          Some (Document (data\<lparr>leave_requests := leave_requests data @ [r]\<rparr>)))
                   \<and> user_id r = uid u \<and> employee_name r = name u
                   \<and> department r = udepartment u))
       \<and> (truthy (dget kvs ''date'' JNull) \<and> truthy (dget kvs ''clock_in'' JNull)
          \<and> truthy (dget kvs ''clock_out'' JNull) \<and> truthy (dget kvs ''reason'' JNull)
          \<longrightarrow> (\<exists>r. api_create_correction clk h (Json (JDict kvs)) f
                       = (Responded (RespondJson 200 (OneItem (Correction r))),
                          Some (Document (data\<lparr>attendance_corrections :=
                                                  attendance_corrections data @ [r]\<rparr>)))
                   \<and> user_id r = uid u \<and> employee_name r = name u
                   \<and> department r = udepartment u
                   \<and> date r = dget kvs ''date'' JNull))"
proof -
  have l: "\<And>v. new_leave clk v kvs = new_leave clk v kvs'"
    using assms(3) by (intro new_leave_cong) simp
  have c: "\<And>v. new_correction clk v kvs = new_correction clk v kvs'"
    using assms(3) by (intro new_correction_cong) simp
  have 1: "api_create_leave clk h (Json (JDict kvs)) f
             = api_create_leave clk h (Json (JDict kvs')) f"
    using l by (rule api_create_leave_cong)
  have 2: "api_create_correction clk h (Json (JDict kvs)) f
             = api_create_correction clk h (Json (JDict kvs')) f"
    using c by (rule api_create_correction_cong)
  have 3: "\<forall>it f2. api_create_leave clk h (Json (JDict kvs)) f
                     = (Responded (RespondJson 200 (OneItem it)), f2)
              \<longrightarrow> (\<exists>r. it = Leave r \<and> user_id r = uid u \<and> employee_name r = name u
                       \<and> department r = udepartment u
                       \<and> f2 = Some (Document
                                 (data\<lparr>leave_requests := leave_requests data @ [r]\<rparr>)))"
    using api_create_leave_ok[OF assms(1,2)] new_leave_owner by blast
  have 4: "\<forall>it f2. api_create_correction clk h (Json (JDict kvs)) f
                     = (Responded (RespondJson 200 (OneItem it)), f2)
              \<longrightarrow> (\<exists>r. it = Correction r \<and> user_id r = uid u \<and> employee_name r = name u
                       \<and> department r = udepartment u
                       \<and> f2 = Some (Document
                                 (data\<lparr>attendance_corrections :=
                                         attendance_corrections data @ [r]\<rparr>)))"
    using api_create_correction_ok[OF assms(1,2)] new_correction_owner by blast
  have 5: "truthy (dget kvs ''leave_type'' JNull) \<and> truthy (dget kvs ''reason'' JNull)
          \<and> (\<exists>s e. parse_date (dget kvs ''start_date'' JNull) = Inr s
                   \<and> parse_date (dget kvs ''end_date'' JNull) = Inr e \<and> \<not> date_lt e s)
          \<longrightarrow> (\<exists>r. api_create_leave clk h (Json (JDict kvs)) f
                       = (Responded (RespondJson 200 (OneItem (Leave r))),
                          Some (Document (data\<lparr>leave_requests := leave_requests data @ [r]\<rparr>)))
                   \<and> user_id r = uid u \<and> employee_name r = name u
                   \<and> department r = udepartment u)"
  proof
    assume a: "truthy (dget kvs ''leave_type'' JNull) \<and> truthy (dget kvs ''reason'' JNull)
          \<and> (\<exists>s e. parse_date (dget kvs ''start_date'' JNull) = Inr s
                   \<and> parse_date (dget kvs ''end_date'' JNull) = Inr e \<and> \<not> date_lt e s)"
    then obtain r where r: "new_leave clk u kvs = Inr r"
      using new_leave_present[of kvs _ _ clk u] by blast
    from api_create_leave_saves[OF assms(1,2) r] new_leave_owner[OF r]
    show "\<exists>r. api_create_leave clk h (Json (JDict kvs)) f
                       = (Responded (RespondJson 200 (OneItem (Leave r))),
                          Some (Document (data\<lparr>leave_requests := leave_requests data @ [r]\<rparr>)))
                   \<and> user_id r = uid u \<and> employee_name r = name u
                   \<and> department r = udepartment u" by blast
  qed
  have 6: "truthy (dget kvs ''date'' JNull) \<and> truthy (dget kvs ''clock_in'' JNull)
          \<and> truthy (dget kvs ''clock_out'' JNull) \<and> truthy (dget kvs ''reason'' JNull)
          \<longrightarrow> (\<exists>r. api_create_correction clk h (Json (JDict kvs)) f
                       = (Responded (RespondJson 200 (OneItem (Correction r))),
                          Some (Document (data\<lparr>attendance_corrections :=
                                                  attendance_corrections data @ [r]\<rparr>)))
                   \<and> user_id r = uid u \<and> employee_name r = name u
                   \<and> department r = udepartment u
                   \<and> date r = dget kvs ''date'' JNull)"
  proof
    assume a: "truthy (dget kvs ''date'' JNull) \<and> truthy (dget kvs ''clock_in'' JNull)
          \<and> truthy (dget kvs ''clock_out'' JNull) \<and> truthy (dget kvs ''reason'' JNull)"
    then obtain r where r: "new_correction clk u kvs = Inr r"
      using new_correction_present[of kvs clk u] by blast
    from r a have d: "date r = dget kvs ''date'' JNull"
      by (auto simp: new_correction_def)
    from api_create_correction_saves[OF assms(1,2) r] new_correction_owner[OF r] d
    show "\<exists>r. api_create_correction clk h (Json (JDict kvs)) f
                       = (Responded (RespondJson 200 (OneItem (Correction r))),
                          Some (Document (data\<lparr>attendance_corrections :=
                                                  attendance_corrections data @ [r]\<rparr>)))
                   \<and> user_id r = uid u \<and> employee_name r = name u
                   \<and> department r = udepartment u
                   \<and> date r = dget kvs ''date'' JNull" by blast
  qed
  from 1 2 3 4 5 6 show ?thesis by (intro conjI)
qed


theorem owner_fields_come_from_identity_witness:
  "load_data (Some (Document SEED)) = (Inr SEED, Some (Document SEED))
   \<and> require_user (as_user ''e001'') SEED = Inr alice
   \<and> map_of spoofed_leave_fields ''user_id'' = Some (JStr ''a001'')
   \<and> map_of leave_fields ''user_id'' = None
   \<and> api_create_leave sample_clock (as_user ''e001'') (Json (JDict spoofed_leave_fields))
        (Some (Document SEED))
       = api_create_leave sample_clock (as_user ''e001'') (Json (JDict leave_fields))
           (Some (Document SEED))
   \<and> api_create_leave sample_clock (as_user ''e001'') (Json (JDict spoofed_leave_fields))
        (Some (Document SEED))
       = (Responded (RespondJson 200 (OneItem (Leave created_leave))),
          Some (Document (SEED\<lparr>leave_requests := [created_leave]\<rparr>)))
   \<and> user_id created_leave = ''e001'' \<and> employee_name created_leave = ''Alice Tanaka''
   \<and> department created_leave = ''Sales''
   \<and> map_of spoofed_correction_fields ''user_id'' = Some (JStr ''a001'')
   \<and> map_of correction_fields ''user_id'' = None
   \<and> api_create_correction sample_clock (as_user ''e001'')
        (Json (JDict spoofed_correction_fields)) (Some (Document SEED))
       = api_create_correction sample_clock (as_user ''e001'') (Json (JDict correction_fields))
           (Some (Document SEED))
   \<and> api_create_correction sample_clock (as_user ''e001'')
        (Json (JDict spoofed_correction_fields)) (Some (Document SEED))
       = (Responded (RespondJson 200 (OneItem (Correction created_correction))),
          Some (Document (SEED\<lparr>attendance_corrections := [created_correction]\<rparr>)))
   \<and> user_id created_correction = ''e001''
   \<and> employee_name created_correction = ''Alice Tanaka''
   \<and> department created_correction = ''Sales''"
proof -
  have h1: "load_data (Some (Document SEED)) = (Inr SEED, Some (Document SEED))"
    by (rule load_data_document)
  have h2: "require_user (as_user ''e001'') SEED = Inr alice" by code_simp
  have h3: "\<forall>k. k \<notin> {''user_id'', ''employee_name'', ''department''}
             \<longrightarrow> map_of spoofed_leave_fields k = map_of leave_fields k"
    by (simp add: spoofed_leave_fields_def)
  have g3: "\<forall>k. k \<notin> {''user_id'', ''employee_name'', ''department''}
             \<longrightarrow> map_of spoofed_correction_fields k = map_of correction_fields k"
    by (simp add: spoofed_correction_fields_def)
  have a: "map_of spoofed_leave_fields ''user_id'' = Some (JStr ''a001'')"
    by (simp add: spoofed_leave_fields_def)
  have b: "map_of leave_fields ''user_id'' = None" by (simp add: leave_fields_def)
  have ca: "map_of spoofed_correction_fields ''user_id'' = Some (JStr ''a001'')"
    by (simp add: spoofed_correction_fields_def)
  have cb: "map_of correction_fields ''user_id'' = None" by (simp add: correction_fields_def)
  have run: "api_create_leave sample_clock (as_user ''e001'') (Json (JDict spoofed_leave_fields))
               (Some (Document SEED))
             = (Responded (RespondJson 200 (OneItem (Leave created_leave))),
                Some (Document (SEED\<lparr>leave_requests := [created_leave]\<rparr>)))"
    by code_simp
  have crun: "api_create_correction sample_clock (as_user ''e001'')
               (Json (JDict spoofed_correction_fields)) (Some (Document SEED))
             = (Responded (RespondJson 200 (OneItem (Correction created_correction))),
                Some (Document (SEED\<lparr>attendance_corrections := [created_correction]\<rparr>)))"
    by code_simp
  have al: "uid alice = ''e001'' \<and> name alice = ''Alice Tanaka'' \<and> udepartment alice = ''Sales''"
    by (simp add: alice_def)
  note t = owner_fields_come_from_identity[OF h1 h2 h3, of sample_clock]
  note c = owner_fields_come_from_identity[OF h1 h2 g3, of sample_clock]
  from t have r1:
    "api_create_leave sample_clock (as_user ''e001'') (Json (JDict spoofed_leave_fields))
        (Some (Document SEED))
       = api_create_leave sample_clock (as_user ''e001'') (Json (JDict leave_fields))
           (Some (Document SEED))" by (rule conjunct1)
  from t run have "\<exists>r. Leave created_leave = Leave r \<and> user_id r = uid alice
      \<and> employee_name r = name alice \<and> department r = udepartment alice" by blast
  with al have o: "user_id created_leave = ''e001''"
      "employee_name created_leave = ''Alice Tanaka''" "department created_leave = ''Sales''"
    by auto
  from c have r2:
    "api_create_correction sample_clock (as_user ''e001'')
        (Json (JDict spoofed_correction_fields)) (Some (Document SEED))
       = api_create_correction sample_clock (as_user ''e001'') (Json (JDict correction_fields))
           (Some (Document SEED))" by blast
  from c crun have "\<exists>r. Correction created_correction = Correction r \<and> user_id r = uid alice
      \<and> employee_name r = name alice \<and> department r = udepartment alice" by blast
  with al have co: "user_id created_correction = ''e001''"
      "employee_name created_correction = ''Alice Tanaka''"
      "department created_correction = ''Sales''"
    by auto
  from h1 h2 a b r1 run o ca cb r2 crun co show ?thesis by (intro conjI)
qed

text \<open>
  C7. A leave creation by a resolved user whose two dates parse: when the end is before
  the start the answer is a 400 and the file is as loading left it; otherwise, with
  \<open>leave_type\<close> and \<open>reason\<close> present, the record is created with
  \<open>days = (end - start).days + 1\<close>, whatever \<open>days\<close> the payload carries: payloads that
  differ only in the key \<open>days\<close> get the same answer.
\<close>

theorem leave_days_are_computed_by_the_service:
  assumes "load_data f = (Inr data, f')"
    and "require_user h data = Inr u"
    and "parse_date (dget kvs ''start_date'' JNull) = Inr s"
    and "parse_date (dget kvs ''end_date'' JNull) = Inr e"
  shows "(if date_lt e s
          then \<exists>p. api_create_leave clk h (Json (JDict kvs)) f = (Responded (RespondJson 400 p), f')
          else if truthy (dget kvs ''leave_type'' JNull) \<and> truthy (dget kvs ''reason'' JNull)
          then \<exists>r. api_create_leave clk h (Json (JDict kvs)) f
                      = (Responded (RespondJson 200 (OneItem (Leave r))),
                         Some (Document (data\<lparr>leave_requests := leave_requests data @ [r]\<rparr>)))
                    \<and> days r = toordinal e - toordinal s + 1
          else \<exists>p. api_create_leave clk h (Json (JDict kvs)) f = (Responded (RespondJson 400 p), f'))
       \<and> (\<forall>kvs'. (\<forall>k. k \<noteq> ''days'' \<longrightarrow> map_of kvs' k = map_of kvs k)
             \<longrightarrow> api_create_leave clk h (Json (JDict kvs')) f
                  = api_create_leave clk h (Json (JDict kvs)) f)"
proof -
  have ts: "truthy (dget kvs ''start_date'' JNull)" "truthy (dget kvs ''end_date'' JNull)"
    using assms(3,4) by (auto dest: parse_date_truthy)
  have indep: "\<forall>kvs'. (\<forall>k. k \<noteq> ''days'' \<longrightarrow> map_of kvs' k = map_of kvs k)
             \<longrightarrow> api_create_leave clk h (Json (JDict kvs')) f
                  = api_create_leave clk h (Json (JDict kvs)) f"
  proof (intro allI impI)
    fix kvs' assume a: "\<forall>k. k \<noteq> ''days'' \<longrightarrow> map_of kvs' k = map_of kvs k"
    have "\<And>v. new_leave clk v kvs' = new_leave clk v kvs"
      using a by (intro new_leave_cong) simp
    then show "api_create_leave clk h (Json (JDict kvs')) f
                  = api_create_leave clk h (Json (JDict kvs)) f"
      by (rule api_create_leave_cong)
  qed
  have rj: "read_json (Json (JDict kvs)) = Inr (JDict kvs)" by simp
  have main: "if date_lt e s
          then \<exists>p. api_create_leave clk h (Json (JDict kvs)) f = (Responded (RespondJson 400 p), f')
          else if truthy (dget kvs ''leave_type'' JNull) \<and> truthy (dget kvs ''reason'' JNull)
          then \<exists>r. api_create_leave clk h (Json (JDict kvs)) f
                      = (Responded (RespondJson 200 (OneItem (Leave r))),
                         Some (Document (data\<lparr>leave_requests := leave_requests data @ [r]\<rparr>)))
                    \<and> days r = toordinal e - toordinal s + 1
          else \<exists>p. api_create_leave clk h (Json (JDict kvs)) f = (Responded (RespondJson 400 p), f')"
  proof (cases "truthy (dget kvs ''leave_type'' JNull) \<and> truthy (dget kvs ''reason'' JNull)")
    case False
    then obtain missing where
      "new_leave clk u kvs = Inl (Responded (RespondJson 400 (MissingFields missing)))"
      using new_leave_missing[of kvs clk u] by blast
    from api_create_leave_early[OF rj assms(1,2) this]
    have "\<exists>p. api_create_leave clk h (Json (JDict kvs)) f = (Responded (RespondJson 400 p), f')"
      by blast
    with False show ?thesis by auto
  next
    case True
    show ?thesis
    proof (cases "date_lt e s")
      case lt: True
      have "new_leave clk u kvs
              = Inl (Responded (RespondJson 400 (Message ''End date must be on/after start date'')))"
        using True ts assms(3,4) lt by (simp add: new_leave_def)
      from api_create_leave_early[OF rj assms(1,2) this]
      have "\<exists>p. api_create_leave clk h (Json (JDict kvs)) f = (Responded (RespondJson 400 p), f')"
        by blast
      with lt show ?thesis by auto
    next
      case ge: False
      have "\<exists>r. new_leave clk u kvs = Inr r \<and> days r = toordinal e - toordinal s + 1"
        using True ts assms(3,4) ge by (simp add: new_leave_def days_between_def)
      then obtain r where r: "new_leave clk u kvs = Inr r" "days r = toordinal e - toordinal s + 1"
        by blast
      have "api_create_leave clk h (Json (JDict kvs)) f
              = (Responded (RespondJson 200 (OneItem (Leave r))),
                 Some (Document (data\<lparr>leave_requests := leave_requests data @ [r]\<rparr>)))"
        using assms(1,2) r(1) by (simp add: api_create_leave_def save_data_def)
      with r(2) have "\<exists>r. api_create_leave clk h (Json (JDict kvs)) f
                      = (Responded (RespondJson 200 (OneItem (Leave r))),
                         Some (Document (data\<lparr>leave_requests := leave_requests data @ [r]\<rparr>)))
                    \<and> days r = toordinal e - toordinal s + 1" by blast
      with True ge show ?thesis by auto
    qed
  qed
  from main indep show ?thesis by (rule conjI)
qed

theorem leave_days_are_computed_by_the_service_witness:
  "load_data (Some (Document SEED)) = (Inr SEED, Some (Document SEED))
   \<and> require_user (as_user ''e001'') SEED = Inr alice
   \<and> parse_date (dget leave_fields_with_days ''start_date'' JNull)
       = Inr \<lparr>year = 2025, month = 4, day = 1\<rparr>
   \<and> parse_date (dget leave_fields_with_days ''end_date'' JNull)
       = Inr \<lparr>year = 2025, month = 4, day = 3\<rparr>
   \<and> map_of leave_fields_with_days ''days'' = Some (JInt 1)
   \<and> (\<exists>r. api_create_leave sample_clock (as_user ''e001'') (Json (JDict leave_fields_with_days))
               (Some (Document SEED))
             = (Responded (RespondJson 200 (OneItem (Leave r))),
                Some (Document (SEED\<lparr>leave_requests := leave_requests SEED @ [r]\<rparr>)))
           \<and> days r = 3)
   \<and> api_create_leave sample_clock (as_user ''e001'') (Json (JDict leave_fields))
         (Some (Document SEED))
       = api_create_leave sample_clock (as_user ''e001'') (Json (JDict leave_fields_with_days))
           (Some (Document SEED))
   \<and> parse_date (dget backwards_fields ''start_date'' JNull)
       = Inr \<lparr>year = 2025, month = 4, day = 3\<rparr>
   \<and> parse_date (dget backwards_fields ''end_date'' JNull)
       = Inr \<lparr>year = 2025, month = 4, day = 1\<rparr>
   \<and> (\<exists>p. api_create_leave sample_clock (as_user ''e001'') (Json (JDict backwards_fields))
               (Some (Document SEED))
             = (Responded (RespondJson 400 p), Some (Document SEED)))"
proof -
  let ?d1 = "\<lparr>year = 2025, month = 4, day = 1\<rparr>"
  let ?d3 = "\<lparr>year = 2025, month = 4, day = 3\<rparr>"
  have h1: "load_data (Some (Document SEED)) = (Inr SEED, Some (Document SEED))"
    by (rule load_data_document)
  have h2: "require_user (as_user ''e001'') SEED = Inr alice" by code_simp
  have h3: "parse_date (dget leave_fields_with_days ''start_date'' JNull) = Inr ?d1"
    by code_simp
  have h4: "parse_date (dget leave_fields_with_days ''end_date'' JNull) = Inr ?d3"
    by code_simp
  have b3: "parse_date (dget backwards_fields ''start_date'' JNull) = Inr ?d3" by code_simp
  have b4: "parse_date (dget backwards_fields ''end_date'' JNull) = Inr ?d1" by code_simp
  have dl: "\<not> date_lt ?d3 ?d1" "date_lt ?d1 ?d3" by (simp_all add: date_lt_def)
  have tr: "truthy (dget leave_fields_with_days ''leave_type'' JNull)
            \<and> truthy (dget leave_fields_with_days ''reason'' JNull)" by code_simp
  have n: "toordinal ?d3 - toordinal ?d1 + 1 = 3" by code_simp
  have d: "map_of leave_fields_with_days ''days'' = Some (JInt 1)"
    by (simp add: leave_fields_with_days_def)
  have same: "\<forall>k. k \<noteq> ''days'' \<longrightarrow> map_of leave_fields k = map_of leave_fields_with_days k"
    by (simp add: leave_fields_with_days_def)
  note t = leave_days_are_computed_by_the_service[OF h1 h2 h3 h4, of sample_clock]
  have r0:
    "\<exists>r. api_create_leave sample_clock (as_user ''e001'') (Json (JDict leave_fields_with_days))
               (Some (Document SEED))
             = (Responded (RespondJson 200 (OneItem (Leave r))),
                Some (Document (SEED\<lparr>leave_requests := leave_requests SEED @ [r]\<rparr>)))
           \<and> days r = toordinal ?d3 - toordinal ?d1 + 1"
    using t[THEN conjunct1] by (simp only: dl tr if_True if_False simp_thms)
  have r1:
    "\<exists>r. api_create_leave sample_clock (as_user ''e001'') (Json (JDict leave_fields_with_days))
               (Some (Document SEED))
             = (Responded (RespondJson 200 (OneItem (Leave r))),
                Some (Document (SEED\<lparr>leave_requests := leave_requests SEED @ [r]\<rparr>)))
           \<and> days r = 3"
    using r0 by (simp only: n)
  have r2:
    "api_create_leave sample_clock (as_user ''e001'') (Json (JDict leave_fields))
         (Some (Document SEED))
       = api_create_leave sample_clock (as_user ''e001'') (Json (JDict leave_fields_with_days))
           (Some (Document SEED))"
    using t[THEN conjunct2, rule_format, OF same[rule_format]] .
  have r3:
    "\<exists>p. api_create_leave sample_clock (as_user ''e001'') (Json (JDict backwards_fields))
               (Some (Document SEED))
             = (Responded (RespondJson 400 p), Some (Document SEED))"
    using leave_days_are_computed_by_the_service[OF h1 h2 b3 b4, of sample_clock, THEN conjunct1]
    by (simp only: dl if_True)
  from h1 h2 h3 h4 d r1 r2 b3 b4 r3 show ?thesis by (intro conjI)
qed

section \<open>What the reports select\<close>

lemma filter_raise_result:
  "filter_raise p xs = Inr ys \<Longrightarrow> ys = [x \<leftarrow> xs. p x = Inr True]"
  by (induction xs arbitrary: ys) (auto split: sum.splits if_splits)

lemma add_days_keys:
  "map fst (add_days s k n) = (if k \<in> fst ` set s then map fst s else map fst s @ [k])"
  by (auto simp: add_days_def split: prod.splits)

lemma add_days_dom: "fst ` set (add_days s k n) = insert k (fst ` set s)"
proof -
  have "set (map fst (add_days s k n)) = insert k (fst ` set s)"
    unfolding add_days_keys by auto
  then show ?thesis by simp
qed

lemma add_days_distinct:
  "distinct (map fst s) \<Longrightarrow> distinct (map fst (add_days s k n))"
  unfolding add_days_keys by simp

lemma map_of_bump:
  "map_of (map (\<lambda>(k', v). if k' = k then (k', v + n) else (k', v)) s) k'
     = (if k' = k then map_option (\<lambda>v. v + n) (map_of s k') else map_of s k')"
  by (induction s) auto


lemma taken_add_days:
  "taken (add_days s k n) k' = taken s k' + (if k' = k then n else 0)"
proof (cases "k \<in> fst ` set s")
  case True
  then have "map_of s k \<noteq> None" by (simp add: map_of_eq_None_iff)
  then obtain v where "map_of s k = Some v" by blast
  with True show ?thesis
    by (simp add: taken_def add_days_def map_of_bump split: option.splits)
next
  case False
  then have "map_of s k = None" by (simp add: map_of_eq_None_iff)
  with False show ?thesis
    by (auto simp: taken_def add_days_def map_add_def split: option.splits)
qed

lemma foldl_add_days:
  fixes ls :: "leave_request list"
  assumes "distinct (map fst acc)"
  shows "distinct (map fst (foldl (\<lambda>a r. add_days a (user_id r) (days r)) acc ls))
       \<and> fst ` set (foldl (\<lambda>a r. add_days a (user_id r) (days r)) acc ls)
           = fst ` set acc \<union> user_id ` set ls
       \<and> (\<forall>k. taken (foldl (\<lambda>a r. add_days a (user_id r) (days r)) acc ls) k
              = taken acc k + sum_list (map days [r \<leftarrow> ls. user_id r = k]))"
  using assms
proof (induction ls arbitrary: acc)
  case Nil
  then show ?case by simp
next
  case (Cons r ls)
  have d: "distinct (map fst (add_days acc (user_id r) (days r)))"
    using Cons.prems by (rule add_days_distinct)
  note ih = Cons.IH[OF d]
  have 1: "distinct (map fst (foldl (\<lambda>a r. add_days a (user_id r) (days r)) acc (r # ls)))"
    using ih by simp
  have 2: "fst ` set (foldl (\<lambda>a r. add_days a (user_id r) (days r)) acc (r # ls))
           = fst ` set acc \<union> user_id ` set (r # ls)"
    using ih by (simp add: add_days_dom)
  have 3: "\<forall>k. taken (foldl (\<lambda>a r. add_days a (user_id r) (days r)) acc (r # ls)) k
              = taken acc k + sum_list (map days [r \<leftarrow> r # ls. user_id r = k])"
    using ih by (simp add: taken_add_days)
  from 1 2 3 show ?case by (intro conjI)
qed

lemma leave_summary_keys:
  "distinct (map fst (leave_summary ls)) \<and> fst ` set (leave_summary ls) = user_id ` set ls"
  using foldl_add_days[of "[]" ls] by (simp add: leave_summary_def)

lemma leave_summary_taken:
  "taken (leave_summary ls) k = sum_list (map days [r \<leftarrow> ls. user_id r = k])"
  using foldl_add_days[of "[]" ls] by (simp add: leave_summary_def taken_def)

lemma leave_summary_entries:
  assumes "(k, v) \<in> set (leave_summary ls)"
  shows "v = sum_list (map days [r \<leftarrow> ls. user_id r = k]) \<and> k \<in> user_id ` set ls"
proof -
  from leave_summary_keys have "distinct (map fst (leave_summary ls))" by blast
  with assms have "map_of (leave_summary ls) k = Some v" by simp
  then have "taken (leave_summary ls) k = v" by (simp add: taken_def)
  with leave_summary_taken[of ls k]
  have 1: "v = sum_list (map days [r \<leftarrow> ls. user_id r = k])" by simp
  from assms have "k \<in> fst ` set (leave_summary ls)" by force
  with leave_summary_keys[of ls] have 2: "k \<in> user_id ` set ls" by simp
  from 1 2 show ?thesis by (rule conjI)
qed


lemma require_user_not_ok: "require_user h data = Inl resp \<Longrightarrow> status_of resp \<noteq> 200"
  by (auto simp: require_user_def split: option.splits if_splits)

lemma guard_role_not_ok: "guard_role u allowed = Some resp \<Longrightarrow> status_of resp \<noteq> 200"
  by (auto simp: guard_role_def split: if_splits)

lemma api_reports_ok:
  assumes "api_reports q h f = (Responded (RespondJson 200 (Report rep)), f2)"
  shows "\<exists>data sd ed ls cs.
           load_data f = (Inr data, f2)
         \<and> parse_filter (qget q ''start'' []) = Inr sd
         \<and> parse_filter (qget q ''end'' []) = Inr ed
         \<and> report_leave_items data (qget q ''department'' []) (qget q ''employee'' []) sd ed = Inr ls
         \<and> report_corr_items data (qget q ''department'' []) (qget q ''employee'' []) sd ed = Inr cs
         \<and> leave_totals rep = map (report_row (user_lookup data)) (leave_summary ls)
         \<and> correction_count rep = length cs"
proof -
  obtain r f' where l: "load_data f = (r, f')" by (cases "load_data f")
  show ?thesis
  proof (cases r)
    case (Inl e)
    with l assms show ?thesis by (simp add: api_reports_def)
  next
    case (Inr data)
    note d = l[unfolded Inr]
    show ?thesis
    proof (cases "require_user h data")
      case (Inl resp)
      with d assms require_user_not_ok[OF Inl] show ?thesis
        by (auto simp: api_reports_def)
    next
      case u: (Inr u)
      show ?thesis
      proof (cases "guard_role u [''manager'', ''admin'']")
        case (Some resp)
        with d u assms guard_role_not_ok[OF Some] show ?thesis
          by (auto simp: api_reports_def)
      next
        case None
        with d u assms show ?thesis
          by (auto simp: api_reports_def Let_def split: sum.splits)
      qed
    qed
  qed
qed

lemma approved_and_match_True:
  "approved_and_match usrs d e sd ed wrap r = Inr True
     \<longleftrightarrow> status r = ''approved'' \<and> match_filters usrs d e sd ed (wrap r) = Inr True"
  by (simp add: approved_and_match_def)

lemma report_row_fields:
  "employee_id (report_row (user_lookup data) (k, v)) = k"
  "leave_days_taken (report_row (user_lookup data) (k, v)) = v"
  "leave_days_remaining (report_row (user_lookup data) (k, v)) = max (allowance_of data k - v) 0"
  by (simp_all add: report_row_def allowance_of_def Let_def)

text \<open>
  C8. In every summary the service answers, each row's \<open>leave_days_taken\<close> is the sum
  of \<open>days\<close> over that employee's approved leave requests that pass the filters, and
  \<open>leave_days_remaining\<close> is \<open>max (allowance - taken) 0\<close>, hence never negative; the
  allowance of an id that names no user is 0.
\<close>

theorem remaining_leave_is_never_negative:
  assumes "api_reports q h f = (Responded (RespondJson 200 (Report rep)), f2)"
  shows "\<exists>data sd ed.
           load_data f = (Inr data, f2)
         \<and> parse_filter (qget q ''start'' []) = Inr sd
         \<and> parse_filter (qget q ''end'' []) = Inr ed
         \<and> (\<forall>row \<in> set (leave_totals rep).
               leave_days_taken row
                 = sum_list (map days
                     [r \<leftarrow> leave_requests data.
                        (status r = ''approved''
                         \<and> match_filters (user_lookup data) (qget q ''department'' [])
                             (qget q ''employee'' []) sd ed (Leave r) = Inr True)
                        \<and> user_id r = employee_id row])
             \<and> leave_days_remaining row
                 = max (allowance_of data (employee_id row) - leave_days_taken row) 0
             \<and> 0 \<le> leave_days_remaining row)"
proof -
  from api_reports_ok[OF assms] obtain data sd ed ls where
    l: "load_data f = (Inr data, f2)"
    and s: "parse_filter (qget q ''start'' []) = Inr sd"
    and e: "parse_filter (qget q ''end'' []) = Inr ed"
    and ls: "report_leave_items data (qget q ''department'' []) (qget q ''employee'' []) sd ed
               = Inr ls"
    and rows: "leave_totals rep = map (report_row (user_lookup data)) (leave_summary ls)"
    by blast
  let ?ok = "\<lambda>r. status r = ''approved''
                 \<and> match_filters (user_lookup data) (qget q ''department'' [])
                     (qget q ''employee'' []) sd ed (Leave r) = Inr True"
  have lsf: "ls = filter ?ok (leave_requests data)"
    using filter_raise_result[OF ls[unfolded report_leave_items_def]]
    by (simp add: approved_and_match_True)
  have "\<forall>row \<in> set (leave_totals rep).
               leave_days_taken row
                 = sum_list (map days [r \<leftarrow> leave_requests data. ?ok r \<and> user_id r = employee_id row])
             \<and> leave_days_remaining row
                 = max (allowance_of data (employee_id row) - leave_days_taken row) 0
             \<and> 0 \<le> leave_days_remaining row"
  proof
    fix row assume "row \<in> set (leave_totals rep)"
    with rows obtain k v where kv: "(k, v) \<in> set (leave_summary ls)"
      and row: "row = report_row (user_lookup data) (k, v)" by auto
    from leave_summary_entries[OF kv]
    have "v = sum_list (map days [r \<leftarrow> ls. user_id r = k])" by simp
    then have "v = sum_list (map days [r \<leftarrow> leave_requests data. ?ok r \<and> user_id r = k])"
      by (simp add: lsf)
    with row show "leave_days_taken row
                 = sum_list (map days [r \<leftarrow> leave_requests data. ?ok r \<and> user_id r = employee_id row])
             \<and> leave_days_remaining row
                 = max (allowance_of data (employee_id row) - leave_days_taken row) 0
             \<and> 0 \<le> leave_days_remaining row"
      by (simp add: report_row_fields)
  qed
  with l s e show ?thesis by blast
qed

theorem remaining_leave_is_never_negative_witness:
  "api_reports [] (as_user ''m001'') (Some (Document sample))
     = (Responded (RespondJson 200 (Report sample_report)), Some (Document sample))
   \<and> over_allowance_row \<in> set (leave_totals sample_report)
   \<and> allowance_of sample ''e003'' = 5
   \<and> leave_days_taken over_allowance_row = 6
   \<and> leave_days_remaining over_allowance_row
       = max (allowance_of sample (employee_id over_allowance_row)
              - leave_days_taken over_allowance_row) 0
   \<and> 0 \<le> leave_days_remaining over_allowance_row"
proof -
  have run: "api_reports [] (as_user ''m001'') (Some (Document sample))
     = (Responded (RespondJson 200 (Report sample_report)), Some (Document sample))"
    by code_simp
  have m: "over_allowance_row \<in> set (leave_totals sample_report)"
    by (simp add: sample_report_def)
  have a: "allowance_of sample ''e003'' = 5" by code_simp
  have t: "leave_days_taken over_allowance_row = 6" by (simp add: over_allowance_row_def)
  from remaining_leave_is_never_negative[OF run] obtain data where
    l: "load_data (Some (Document sample)) = (Inr data, Some (Document sample))"
    and r: "\<forall>row \<in> set (leave_totals sample_report).
             leave_days_remaining row
                 = max (allowance_of data (employee_id row) - leave_days_taken row) 0
             \<and> 0 \<le> leave_days_remaining row"
    by blast
  from l have "data = sample" by (simp add: load_data_document)
  with r m have "leave_days_remaining over_allowance_row
       = max (allowance_of sample (employee_id over_allowance_row)
              - leave_days_taken over_allowance_row) 0
     \<and> 0 \<le> leave_days_remaining over_allowance_row" by blast
  with run m a t show ?thesis by blast
qed














section \<open>What the settings update answers\<close>

lemma guard_role_admin: "guard_role u [''admin''] = None \<Longrightarrow> role u = ''admin''"
  by (auto simp: guard_role_def split: if_splits)

lemma str_list_keeps:
  assumes "(if v \<noteq> JNull then map_sum id g (str_list py_str v) else Inr data) = Inr data'"
    and "\<And>xs. users (g xs) = users data \<and> leave_requests (g xs) = leave_requests data
              \<and> attendance_corrections (g xs) = attendance_corrections data"
  shows "users data' = users data \<and> leave_requests data' = leave_requests data
         \<and> attendance_corrections data' = attendance_corrections data"
proof (cases "v = JNull")
  case True
  with assms(1) show ?thesis by simp
next
  case False
  with assms(1) obtain xs where "data' = g xs"
    by (cases "str_list py_str v") auto
  with assms(2) show ?thesis by simp
qed

lemma api_settings_update_ok:
  assumes "api_settings_update py_str h raw f = (Responded (RespondJson 200 p), f2)"
  shows "\<exists>body data f' u kvs data1 data2 data3.
           read_json raw = Inr body \<and> body = JDict kvs
         \<and> load_data f = (Inr data, f') \<and> require_user h data = Inr u
         \<and> guard_role u [''admin''] = None
         \<and> (if dget kvs ''leave_types'' JNull \<noteq> JNull
             then map_sum id (\<lambda>xs. data\<lparr>leave_types := xs\<rparr>)
                    (str_list py_str (dget kvs ''leave_types'' JNull))
             else Inr data) = Inr data1
         \<and> (if dget kvs ''holidays'' JNull \<noteq> JNull
             then map_sum id (\<lambda>xs. data1\<lparr>work_calendar := (work_calendar data1)\<lparr>holidays := xs\<rparr>\<rparr>)
                    (str_list py_str (dget kvs ''holidays'' JNull))
             else Inr data1) = Inr data2
         \<and> data3 = (if dget kvs ''approval_routes'' JNull \<noteq> JNull
                     then data2\<lparr>approval_routes := dget kvs ''approval_routes'' JNull\<rparr>
                     else data2)
         \<and> p = Settings data3 \<and> f2 = Some (Document data3)"
proof (cases "read_json raw")
  case (Inl e)
  with assms show ?thesis by (simp add: api_settings_update_def)
next
  case body: (Inr body)
  obtain r f' where l: "load_data f = (r, f')" by (cases "load_data f")
  show ?thesis
  proof (cases r)
    case (Inl e)
    with body l assms show ?thesis by (simp add: api_settings_update_def)
  next
    case (Inr data)
    note d = l[unfolded Inr]
    show ?thesis
    proof (cases "require_user h data")
      case (Inl resp)
      with body d assms require_user_not_ok[OF Inl] show ?thesis
        by (auto simp: api_settings_update_def)
    next
      case u: (Inr u)
      show ?thesis
      proof (cases "guard_role u [''admin'']")
        case (Some resp)
        with body d u assms guard_role_not_ok[OF Some] show ?thesis
          by (auto simp: api_settings_update_def)
      next
        case None
        show ?thesis
        proof (cases body)
          case (JDict kvs)
          with body d u None assms show ?thesis
            by (auto simp: api_settings_update_def Let_def save_data_def
                     split: sum.splits if_splits)
        qed (use body d u None assms in \<open>simp_all add: api_settings_update_def\<close>)
      qed
    qed
  qed
qed


text \<open>
  C10. Every 200 answer of the settings update carries, under \<open>settings\<close>, the whole
  dataset that the call persisted: the caller is a resolved admin, the file afterwards
  holds exactly the dataset answered, and that dataset still has the users, leave
  requests and attendance corrections that were loaded, not only the leave types,
  holidays and routes the call can change.
\<close>

theorem settings_answer_is_the_whole_dataset:
  assumes "api_settings_update py_str h raw f = (Responded (RespondJson 200 p), f2)"
  shows "\<exists>data f' u answered.
           load_data f = (Inr data, f') \<and> require_user h data = Inr u \<and> role u = ''admin''
         \<and> p = Settings answered \<and> f2 = Some (Document answered)
         \<and> users answered = users data
         \<and> leave_requests answered = leave_requests data
         \<and> attendance_corrections answered = attendance_corrections data"
proof -
  from api_settings_update_ok[OF assms] obtain data f' u kvs data1 data2 data3 where
    l: "load_data f = (Inr data, f')" and u: "require_user h data = Inr u"
    and g: "guard_role u [''admin''] = None"
    and s1: "(if dget kvs ''leave_types'' JNull \<noteq> JNull
             then map_sum id (\<lambda>xs. data\<lparr>leave_types := xs\<rparr>)
                    (str_list py_str (dget kvs ''leave_types'' JNull))
             else Inr data) = Inr data1"
    and s2: "(if dget kvs ''holidays'' JNull \<noteq> JNull
             then map_sum id (\<lambda>xs. data1\<lparr>work_calendar := (work_calendar data1)\<lparr>holidays := xs\<rparr>\<rparr>)
                    (str_list py_str (dget kvs ''holidays'' JNull))
             else Inr data1) = Inr data2"
    and s3: "data3 = (if dget kvs ''approval_routes'' JNull \<noteq> JNull
                     then data2\<lparr>approval_routes := dget kvs ''approval_routes'' JNull\<rparr>
                     else data2)"
    and p: "p = Settings data3" and f2: "f2 = Some (Document data3)"
    by blast
  have k1: "users data1 = users data \<and> leave_requests data1 = leave_requests data
         \<and> attendance_corrections data1 = attendance_corrections data"
    using s1 by (rule str_list_keeps) simp
  have k2: "users data2 = users data1 \<and> leave_requests data2 = leave_requests data1
         \<and> attendance_corrections data2 = attendance_corrections data1"
    using s2 by (rule str_list_keeps) simp
  have k3: "users data3 = users data2 \<and> leave_requests data3 = leave_requests data2
         \<and> attendance_corrections data3 = attendance_corrections data2"
    using s3 by simp
  from k1 k2 k3 have "users data3 = users data \<and> leave_requests data3 = leave_requests data
         \<and> attendance_corrections data3 = attendance_corrections data" by simp
  with l u guard_role_admin[OF g] p f2 show ?thesis by blast
qed

theorem settings_answer_is_the_whole_dataset_witness:
  "api_settings_update str_of_text (as_user ''a001'') (Json (JDict settings_fields))
     (Some (Document sample))
     = (Responded (RespondJson 200 (Settings updated_sample)), Some (Document updated_sample))
   \<and> require_user (as_user ''a001'') sample = Inr admin_ito
   \<and> users updated_sample = users sample
   \<and> leave_requests updated_sample = leave_requests sample
   \<and> attendance_corrections updated_sample = attendance_corrections sample
   \<and> leave_requests sample \<noteq> []
   \<and> leave_types updated_sample \<noteq> leave_types sample"
proof -
  have run: "api_settings_update str_of_text (as_user ''a001'') (Json (JDict settings_fields))
     (Some (Document sample))
     = (Responded (RespondJson 200 (Settings updated_sample)), Some (Document updated_sample))"
    by code_simp
  have a: "require_user (as_user ''a001'') sample = Inr admin_ito" by code_simp
  have n: "leave_requests sample \<noteq> []" by code_simp
  have c: "leave_types updated_sample \<noteq> leave_types sample" by code_simp
  from settings_answer_is_the_whole_dataset[OF run] obtain data f' answered where
    l: "load_data (Some (Document sample)) = (Inr data, f')"
    and p: "Settings updated_sample = Settings answered"
    and k: "users answered = users data" "leave_requests answered = leave_requests data"
           "attendance_corrections answered = attendance_corrections data"
    by blast
  from l have "data = sample" by (simp add: load_data_document)
  with p k have "users updated_sample = users sample
    \<and> leave_requests updated_sample = leave_requests sample
    \<and> attendance_corrections updated_sample = attendance_corrections sample" by simp
  with run a n c show ?thesis by blast
qed

section \<open>Recovery of the persisted file\<close>

lemma load_data_recovers:
  assumes "f = None \<or> f = Some Malformed"
  shows "load_data f = (Inr SEED, Some (Document SEED))
       \<and> load_data (snd (load_data f)) = (Inr SEED, Some (Document SEED))"
  using assms by (auto simp: load_data_def)

text \<open>
  C9, at a file whose bytes are not UTF-8. \<open>read_text\<close> raises \<open>UnicodeDecodeError\<close>,
  which the \<open>except json.JSONDecodeError\<close> of \<open>load_data\<close> does not catch: the load
  fails, the file is left as it is, so every later load fails the same way, and each
  request that loads answers 500. (For a missing file and for text that is not JSON,
  \<open>load_data_recovers\<close> shows the recovery the docstring promises.)
\<close>

theorem load_data_fails_on_undecodable_file:
  "load_data (Some Undecodable) = (Inl UnicodeDecodeError, Some Undecodable)
   \<and> load_data (snd (load_data (Some Undecodable))) = (Inl UnicodeDecodeError, Some Undecodable)
   \<and> do_GET ui ''/api/meta'' q h (Some Undecodable)
       = (RespondJson 500 (Message ''Internal server error. Please retry.''), Some Undecodable)"
  by (simp add: load_data_def do_GET_def api_meta_def answer_def handle_error_def)

end
